theory Spec2Isabelle
  imports Main "HOL-Library.Word" "HOL-Library.Signed_Division"
begin

section \<open>Counting semaphore (util/util.go)\<close>

text \<open>
  A \<open>Semaphore\<close> wraps a buffered channel of unit tokens, \<open>make(chan struct{}, capacity)\<close>.
  The channel is modelled by its capacity and the number of tokens it buffers.
  \<open>make\<close> panics on a negative capacity.
\<close>

record Semaphore =
  capacity :: nat
  inner :: nat

definition NewSemaphore :: "int \<Rightarrow> string + Semaphore" where
  "NewSemaphore cap =
     (if cap < 0 then Inl ''makechan: size out of range''
      else Inr \<lparr>capacity = nat cap, inner = 0\<rparr>)"

text \<open>
  Blocking acquire, \<open>s.inner <- struct{}{}\<close>: the send completes when the buffer has room.
  On a full buffer the caller parks; in a sequential history that call never returns,
  which is the value \<open>None\<close>.
\<close>

definition Acquire :: "Semaphore \<Rightarrow> Semaphore option" where
  "Acquire s =
     (if inner s < capacity s then Some (s\<lparr>inner := inner s + 1\<rparr>) else None)"

text \<open>Non-blocking acquire: the \<open>select\<close> takes the send case when there is room, else \<open>default\<close>.\<close>

definition TryAcquire :: "Semaphore \<Rightarrow> bool \<times> Semaphore" where
  "TryAcquire s =
     (if inner s < capacity s then (True, s\<lparr>inner := inner s + 1\<rparr>) else (False, s))"

text \<open>Release: the \<open>select\<close> receives a token when one is buffered, else \<open>default\<close> panics.\<close>

definition Release :: "Semaphore \<Rightarrow> string + Semaphore" where
  "Release s =
     (if 0 < inner s then Inr (s\<lparr>inner := inner s - 1\<rparr>)
      else Inl ''thread semaphore inconsistency: release before acquire!'')"

text \<open>
  A sequential history of calls on one semaphore. Each call that returns leaves a mark:
  an acquire that succeeded, a try-acquire that was refused, or a release.
  The run stops with \<open>None\<close> at a call that blocks or panics.
\<close>

datatype sem_call = CallAcquire | CallTryAcquire | CallRelease

datatype sem_mark = Acquired | Refused | Released

fun run_calls :: "sem_call list \<Rightarrow> Semaphore \<Rightarrow> (Semaphore \<times> sem_mark list) option" where
  "run_calls [] s = Some (s, [])"
| "run_calls (CallAcquire # cs) s =
     (case Acquire s of
        None \<Rightarrow> None
      | Some s' \<Rightarrow> map_option (\<lambda>(t, ms). (t, Acquired # ms)) (run_calls cs s'))"
| "run_calls (CallTryAcquire # cs) s =
     (case TryAcquire s of
        (ok, s') \<Rightarrow>
          map_option (\<lambda>(t, ms). (t, (if ok then Acquired else Refused) # ms)) (run_calls cs s'))"
| "run_calls (CallRelease # cs) s =
     (case Release s of
        Inl msg \<Rightarrow> None
      | Inr s' \<Rightarrow> map_option (\<lambda>(t, ms). (t, Released # ms)) (run_calls cs s'))"

definition unreleased :: "sem_mark list \<Rightarrow> int" where
  "unreleased ms = int (count_list ms Acquired) - int (count_list ms Released)"

section \<open>Data of the network server (net/server.go)\<close>

text \<open>
  Identifiers are Go strings (\<open>thread.ID\<close>, \<open>peer.ID\<close>); a \<open>cid.Cid\<close> wraps a string and
  \<open>cid.Undef\<close> is the zero value. Keys and public keys are read through their bytes only.
  Edges are \<open>uint64\<close>, a request limit is \<open>int32\<close>.
\<close>

type_synonym bytes = "8 word list"
type_synonym thread_ID = string
type_synonym peer_ID = string
type_synonym sym_Key = bytes
type_synonym crypto_PubKey = bytes

datatype Cid = Cid string

definition Undef :: Cid where
  "Undef = Cid []"

text \<open>
  Go errors. \<open>Wrapf m e\<close> is \<open>fmt.Errorf(m + ": %w", e)\<close>; \<open>errors.Is\<close> looks through the
  wrapping, the comparison \<open>==\<close> does not.
\<close>

datatype go_error =
    ErrThreadNotFound
  | ErrOffsetIsMissing
  | errNoAddrsEdge
  | errNoHeadsEdge
  | OtherError string
  | Wrapf string go_error

fun errors_Is :: "go_error \<Rightarrow> go_error \<Rightarrow> bool" where
  "errors_Is (Wrapf m e) target = (Wrapf m e = target \<or> errors_Is e target)"
| "errors_Is e target = (e = target)"

datatype codes = OK | Unknown | InvalidArgument | Unauthenticated | NotFound | Internal

text \<open>The text of a status: a literal of the source, or \<open>err.Error()\<close> of a Go error.\<close>

datatype message = Lit string | ErrorOf go_error

text \<open>What a handler returns as its error: a gRPC status, or a plain Go error.\<close>

datatype rpc_error = Status codes message | Plain go_error

text \<open>The code the caller sees (\<open>status.Code\<close>): a plain Go error travels as \<open>Unknown\<close>.\<close>

fun status_Code :: "rpc_error option \<Rightarrow> codes" where
  "status_Code None = OK"
| "status_Code (Some (Status c m)) = c"
| "status_Code (Some (Plain e)) = Unknown"

datatype thread_status =
    threadStatusUploadStarted
  | threadStatusUploadDone
  | threadStatusUploadFailed
  | threadStatusDownloadStarted
  | threadStatusDownloadDone
  | threadStatusDownloadFailed

datatype priority = callPriorityLow | callPriorityHigh

datatype queue = queueGetLogs | queueGetRecords

text \<open>
  The functions handed to the call queues: the two methods of the network, and the
  function literal of \<open>ExchangeEdges\<close> (update the logs, then add the thread to pubsub).
\<close>

datatype call = updateLogsFromPeer | updateRecordsFromPeer | updateLogsThenSubscribe

text \<open>Modelled from the spec: \<open>thread.Key\<close> is the key-set \<open>{service-key?, read-key?}\<close>;
  \<open>Defined\<close> asks for the service key, \<open>CanRead\<close> for the read key.\<close>

record thread_Key =
  service :: "sym_Key option"
  read :: "sym_Key option"

definition Defined :: "thread_Key \<Rightarrow> bool" where
  "Defined k = (service k \<noteq> None)"

definition CanRead :: "thread_Key \<Rightarrow> bool" where
  "CanRead k = (read k \<noteq> None)"

record LogInfo =
  ID :: peer_ID
  PubKey :: crypto_PubKey
  Addrs :: "string list"
  Head :: Cid

record thread_Info =
  Key :: thread_Key
  Logs :: "LogInfo list"

record pb_Log =
  pb_ID :: peer_ID
  pb_PubKey :: crypto_PubKey
  pb_Addrs :: "string list"
  pb_Head :: Cid

record Log_Record =
  RecordNode :: bytes
  EventNode :: bytes
  HeaderNode :: bytes
  BodyNode :: bytes

text \<open>A decoded record (\<open>thread.Record\<close>): the handlers read its CID and hand it on.\<close>

record Record =
  rec_Cid :: Cid
  rec_Sig :: bytes

record LogHead =
  lh_Head :: Cid
  lh_LogID :: peer_ID

text \<open>\<open>pb.ProtoKey\<close> embeds a pointer to the key; both the message field and the pointer may be nil.\<close>

datatype ProtoKey = ProtoKey (key_ptr: "sym_Key option")

record Header =
  hdr_PubKey :: crypto_PubKey
  hdr_Signature :: bytes

record 'b Request =
  Header :: "Header option"
  Body :: "'b option"

record GetLogsRequest_Body =
  gl_ThreadID :: thread_ID
  gl_ServiceKey :: "ProtoKey option"

record GetLogsReply =
  gl_Logs :: "pb_Log list"

record PushLogRequest_Body =
  pl_ThreadID :: thread_ID
  pl_Log :: pb_Log
  pl_ServiceKey :: "ProtoKey option"
  pl_ReadKey :: "ProtoKey option"

record GetRecordsRequest_Body_LogEntry =
  LogID :: peer_ID
  Offset :: Cid
  Limit :: "32 word"

record GetRecordsRequest_Body =
  gr_ThreadID :: thread_ID
  gr_ServiceKey :: "ProtoKey option"
  gr_Logs :: "GetRecordsRequest_Body_LogEntry list"

record GetRecordsReply_LogEntry =
  re_LogID :: peer_ID
  re_Records :: "Log_Record list"
  re_Log :: "pb_Log option"

record GetRecordsReply =
  reply_Logs :: "GetRecordsReply_LogEntry list"

record PushRecordRequest_Body =
  pr_ThreadID :: thread_ID
  pr_LogID :: peer_ID
  pr_Record :: Log_Record

record ExchangeEdgesRequest_Body_ThreadEntry =
  ThreadID :: thread_ID
  AddressEdge :: "64 word"
  HeadsEdge :: "64 word"

record ExchangeEdgesRequest_Body =
  Threads :: "ExchangeEdgesRequest_Body_ThreadEntry list"

record ExchangeEdgesReply_ThreadEdges =
  te_ThreadID :: thread_ID
  te_Exists :: bool
  te_AddressEdge :: "64 word"
  te_HeadsEdge :: "64 word"

record ExchangeEdgesReply =
  Edges :: "ExchangeEdgesReply_ThreadEdges list"

section \<open>Collaborators of the server\<close>

text \<open>
  The handlers reach the logstore, the network object and the libraries only through calls.
  Each collaborator is a record of the answers it gives to those calls during one request;
  a Go result \<open>(v, err)\<close> is a sum where the source reads \<open>v\<close> only when \<open>err\<close> is nil, and
  a pair where it reads \<open>v\<close> next to a non-nil \<open>err\<close>. Calls that change something, and the
  calls the properties speak of, are also written to the list of events of the request.
  Pointer fields of a decoded message are taken as set, save the keys, which the source
  tests for nil. Logging is left out.
\<close>

record logstore =
  GetThread :: "thread_ID \<Rightarrow> thread_Info \<times> go_error option"
  ServiceKey :: "thread_ID \<Rightarrow> go_error + sym_Key option"
  store_PubKey :: "thread_ID \<Rightarrow> peer_ID \<Rightarrow> go_error + crypto_PubKey option"
  store_HeadsEdge :: "thread_ID \<Rightarrow> go_error + 64 word"
  store_AddrsEdge :: "thread_ID \<Rightarrow> go_error + 64 word"
  AddServiceKey :: "thread_ID \<Rightarrow> sym_Key \<Rightarrow> go_error option"
  AddReadKey :: "thread_ID \<Rightarrow> sym_Key \<Rightarrow> go_error option"

text \<open>
  The network object: \<open>tStat\<close> and \<open>ps\<close> say whether the status registry and the pubsub
  adaptor are there (non-nil). \<open>MaxPullLimit\<close> is a constant of the package.
\<close>

record net =
  store :: logstore
  tStat :: bool
  ps :: bool
  MaxPullLimit :: int
  createExternalLogsIfNotExist :: "thread_ID \<Rightarrow> LogInfo list \<Rightarrow> go_error option"
  isKnown :: "Cid \<Rightarrow> go_error + bool"
  PutRecord :: "thread_ID \<Rightarrow> peer_ID \<Rightarrow> Record \<Rightarrow> go_error option"
  getLocalRecords :: "thread_ID \<Rightarrow> peer_ID \<Rightarrow> Cid \<Rightarrow> int \<Rightarrow> Record list \<times> go_error option"
  net_updateLogsFromPeer :: "peer_ID \<Rightarrow> thread_ID \<Rightarrow> go_error option"
  net_updateRecordsFromPeer :: "peer_ID \<Rightarrow> thread_ID \<Rightarrow> go_error option"
  ps_Add :: "thread_ID \<Rightarrow> go_error option"

record libs =
  Marshal_GetLogs :: "GetLogsRequest_Body \<Rightarrow> go_error + bytes"
  Marshal_PushLog :: "PushLogRequest_Body \<Rightarrow> go_error + bytes"
  Marshal_GetRecords :: "GetRecordsRequest_Body \<Rightarrow> go_error + bytes"
  Marshal_PushRecord :: "PushRecordRequest_Body \<Rightarrow> go_error + bytes"
  Marshal_ExchangeEdges :: "ExchangeEdgesRequest_Body \<Rightarrow> go_error + bytes"
  Verify :: "crypto_PubKey \<Rightarrow> bytes \<Rightarrow> bytes \<Rightarrow> bool \<times> go_error option"
  IDFromPublicKey :: "crypto_PubKey \<Rightarrow> go_error + peer_ID"
  RecordFromProto :: "Log_Record \<Rightarrow> sym_Key option \<Rightarrow> go_error + Record"
  RecordToProto :: "Record \<Rightarrow> go_error + Log_Record"
  rec_Verify :: "Record \<Rightarrow> crypto_PubKey \<Rightarrow> go_error option"
  ComputeHeadsEdge :: "LogHead list \<Rightarrow> 64 word"

datatype event =
    Apply peer_ID thread_ID thread_status
  | Schedule queue peer_ID thread_ID priority call
  | Call_AddServiceKey thread_ID sym_Key
  | Call_AddReadKey thread_ID sym_Key
  | Call_createExternalLogsIfNotExist thread_ID "LogInfo list"
  | Call_PutRecord thread_ID peer_ID Record
  | Call_getLocalRecords thread_ID peer_ID Cid int
  | Call_updateLogsFromPeer peer_ID thread_ID
  | Call_updateRecordsFromPeer peer_ID thread_ID
  | Call_psAdd thread_ID

text \<open>A handler returns the pair \<open>(reply, error)\<close> of the Go function, and the events it caused.\<close>

type_synonym 'r result = "'r option \<times> rpc_error option"
type_synonym 'r outcome = "'r result \<times> event list"

section \<open>Helpers of the server\<close>

definition minInt :: "int \<Rightarrow> int \<Rightarrow> int" where
  "minInt x y = (if x < y then x else y)"

definition logToProto :: "LogInfo \<Rightarrow> pb_Log" where
  "logToProto lg = \<lparr>pb_ID = ID lg, pb_PubKey = PubKey lg, pb_Addrs = Addrs lg, pb_Head = Head lg\<rparr>"

definition logFromProto :: "pb_Log \<Rightarrow> LogInfo" where
  "logFromProto lg = \<lparr>ID = pb_ID lg, PubKey = pb_PubKey lg, Addrs = pb_Addrs lg, Head = pb_Head lg\<rparr>"

text \<open>\<open>k != nil && k.Key != nil\<close>: the key a message carries, if any.\<close>

definition supplied :: "ProtoKey option \<Rightarrow> sym_Key option" where
  "supplied k = (case k of None \<Rightarrow> None | Some pk \<Rightarrow> key_ptr pk)"

text \<open>
  \<open>verifyRequest\<close>: the second argument is what \<open>body.Marshal()\<close> returns, \<open>None\<close> for a nil body.
\<close>

definition verifyRequest ::
  "libs \<Rightarrow> Header option \<Rightarrow> (go_error + bytes) option \<Rightarrow> rpc_error + peer_ID" where
  "verifyRequest l header body =
     (case header of
        None \<Rightarrow> Inl (Status InvalidArgument (Lit ''bad request''))
      | Some h \<Rightarrow>
         (case body of
            None \<Rightarrow> Inl (Status InvalidArgument (Lit ''bad request''))
          | Some (Inl err) \<Rightarrow> Inl (Status Internal (ErrorOf err))
          | Some (Inr payload) \<Rightarrow>
             (case Verify l (hdr_PubKey h) payload (hdr_Signature h) of
                (ok, err) \<Rightarrow>
                  if \<not> ok \<or> err \<noteq> None
                  then Inl (Status Unauthenticated (Lit ''bad signature''))
                  else (case IDFromPublicKey l (hdr_PubKey h) of
                          Inl err' \<Rightarrow> Inl (Status InvalidArgument (ErrorOf err'))
                        | Inr pid \<Rightarrow> Inr pid))))"

definition checkServiceKey :: "net \<Rightarrow> thread_ID \<Rightarrow> ProtoKey option \<Rightarrow> rpc_error option" where
  "checkServiceKey n tid k =
     (case supplied k of
        None \<Rightarrow> Some (Status Unauthenticated (Lit ''a service-key is required to get logs''))
      | Some key \<Rightarrow>
         (case ServiceKey (store n) tid of
            Inl err \<Rightarrow> Some (Status Internal (ErrorOf err))
          | Inr None \<Rightarrow> Some (Status NotFound (ErrorOf ErrThreadNotFound))
          | Inr (Some sk) \<Rightarrow>
              if key \<noteq> sk then Some (Status Unauthenticated (Lit ''invalid service-key''))
              else None))"

definition headsChanged :: "net \<Rightarrow> libs \<Rightarrow> GetRecordsRequest_Body \<Rightarrow> go_error + bool" where
  "headsChanged n l body =
     (let reqHeads = map (\<lambda>e. \<lparr>lh_Head = Offset e, lh_LogID = LogID e\<rparr>) (gr_Logs body)
      in case store_HeadsEdge (store n) (gr_ThreadID body) of
           Inr currEdge \<Rightarrow> Inr (ComputeHeadsEdge l reqHeads \<noteq> currEdge)
         | Inl err \<Rightarrow> if errors_Is err ErrThreadNotFound then Inr True else Inl err)"

definition localEdges :: "net \<Rightarrow> thread_ID \<Rightarrow> go_error + (64 word \<times> 64 word)" where
  "localEdges n tid =
     (case store_AddrsEdge (store n) tid of
        Inl err \<Rightarrow>
          Inl (if errors_Is err ErrThreadNotFound then errNoAddrsEdge
               else Wrapf ''address edge'' err)
      | Inr addrsEdge \<Rightarrow>
         (case store_HeadsEdge (store n) tid of
            Inl err \<Rightarrow>
              Inl (if errors_Is err ErrThreadNotFound then errNoHeadsEdge
                   else Wrapf ''heads edge'' err)
          | Inr headsEdge \<Rightarrow> Inr (addrsEdge, headsEdge)))"

section \<open>The handlers\<close>

text \<open>
  After \<open>verifyRequest\<close> has returned a peer the body is non-nil, since a nil body was
  refused there; the handlers read it with \<open>the\<close>.
\<close>

definition GetLogs :: "net \<Rightarrow> libs \<Rightarrow> GetLogsRequest_Body Request \<Rightarrow> GetLogsReply outcome" where
  "GetLogs n l req =
     (case verifyRequest l (Header req) (map_option (Marshal_GetLogs l) (Body req)) of
        Inl err \<Rightarrow> ((None, Some err), [])
      | Inr pid \<Rightarrow>
         (let body = the (Body req); pblgs = \<lparr>gl_Logs = []\<rparr>
          in case checkServiceKey n (gl_ThreadID body) (gl_ServiceKey body) of
               Some err \<Rightarrow> ((Some pblgs, Some err), [])
             | None \<Rightarrow>
                (case GetThread (store n) (gl_ThreadID body) of
                   (info, Some err) \<Rightarrow> ((None, Some (Status Internal (ErrorOf err))), [])
                 | (info, None) \<Rightarrow>
                     ((Some (pblgs\<lparr>gl_Logs := map logToProto (Logs info)\<rparr>), None), []))))"

subsection \<open>PushLog\<close>

text \<open>
  The block "pick up missing keys" after the thread was read: the error it returns with,
  if any, and the store writes it made.
\<close>

definition pickUpKeys ::
  "net \<Rightarrow> PushLogRequest_Body \<Rightarrow> thread_Info \<Rightarrow> rpc_error option \<times> event list" where
  "pickUpKeys n body info =
     (let tid = pl_ThreadID body
      in if \<not> Defined (Key info) then
           (case supplied (pl_ServiceKey body) of
              Some k \<Rightarrow>
                (case AddServiceKey (store n) tid k of
                   Some err \<Rightarrow> (Some (Status Internal (ErrorOf err)), [Call_AddServiceKey tid k])
                 | None \<Rightarrow> (None, [Call_AddServiceKey tid k]))
            | None \<Rightarrow> (Some (Status NotFound (ErrorOf ErrThreadNotFound)), []))
         else if \<not> CanRead (Key info) then
           (case supplied (pl_ReadKey body) of
              Some k \<Rightarrow>
                (case AddReadKey (store n) tid k of
                   Some err \<Rightarrow> (Some (Status Internal (ErrorOf err)), [Call_AddReadKey tid k])
                 | None \<Rightarrow> (None, [Call_AddReadKey tid k]))
            | None \<Rightarrow> (None, []))
         else (None, []))"

definition PushLog :: "net \<Rightarrow> libs \<Rightarrow> PushLogRequest_Body Request \<Rightarrow> unit outcome" where
  "PushLog n l req =
     (case verifyRequest l (Header req) (map_option (Marshal_PushLog l) (Body req)) of
        Inl err \<Rightarrow> ((None, Some err), [])
      | Inr pid \<Rightarrow>
         (let body = the (Body req); tid = pl_ThreadID body
          in case GetThread (store n) tid of
               (info, err) \<Rightarrow>
                 if (case err of None \<Rightarrow> False | Some e \<Rightarrow> \<not> errors_Is e ErrThreadNotFound)
                 then ((None, Some (Status Internal (ErrorOf (the err)))), [])
                 else
                   (case pickUpKeys n body info of
                      (Some kerr, evs) \<Rightarrow> ((None, Some kerr), evs)
                    | (None, evs) \<Rightarrow>
                       (let lg = logFromProto (pl_Log body)
                        in case createExternalLogsIfNotExist n tid [lg] of
                             Some cerr \<Rightarrow>
                               ((None, Some (Status Internal (ErrorOf cerr))),
                                evs @ [Call_createExternalLogsIfNotExist tid [lg]])
                           | None \<Rightarrow>
                               ((Some (), None),
                                evs @ [Call_createExternalLogsIfNotExist tid [lg],
                                       Schedule queueGetRecords pid tid callPriorityLow
                                         updateRecordsFromPeer])))))"

subsection \<open>GetRecords\<close>

text \<open>The map \<open>reqd\<close>: a later request entry for the same log replaces an earlier one.\<close>

definition reqd_of ::
  "GetRecordsRequest_Body_LogEntry list \<Rightarrow> peer_ID \<rightharpoonup> GetRecordsRequest_Body_LogEntry" where
  "reqd_of logs = fold (\<lambda>e m. m(LogID e \<mapsto> e)) logs Map.empty"

text \<open>
  The conversion loop of one task: the records converted before the first failure, and
  how often the failure counter is raised (once, at the \<open>break\<close>).
\<close>

fun convertRecords :: "libs \<Rightarrow> Record list \<Rightarrow> Log_Record list \<times> 32 word" where
  "convertRecords l [] = ([], 0)"
| "convertRecords l (r # rs) =
     (case RecordToProto l r of
        Inl err \<Rightarrow> ([], 1)
      | Inr pr \<Rightarrow> (case convertRecords l rs of (prs, f) \<Rightarrow> (pr # prs, f)))"

text \<open>
  The offset, limit and descriptor chosen for a local log before its task starts.
\<close>

definition fetchArgs ::
  "(peer_ID \<rightharpoonup> GetRecordsRequest_Body_LogEntry) \<Rightarrow> int \<Rightarrow> LogInfo
     \<Rightarrow> Cid \<times> int \<times> pb_Log option" where
  "fetchArgs reqd logRecordLimit lg =
     (case reqd (ID lg) of
        Some opts \<Rightarrow> (Offset opts, minInt (sint (Limit opts)) logRecordLimit, None)
      | None \<Rightarrow> (Undef, logRecordLimit, Some (logToProto lg)))"

text \<open>
  One per-log task (the goroutine): the reply entry it appends, if any, what it adds to
  the failure counter, and its events.
\<close>

definition fetchTask ::
  "net \<Rightarrow> libs \<Rightarrow> peer_ID \<Rightarrow> thread_ID \<Rightarrow> peer_ID \<Rightarrow> Cid \<times> int \<times> pb_Log option
     \<Rightarrow> GetRecordsReply_LogEntry option \<times> 32 word \<times> event list" where
  "fetchTask n l pid tid lid args =
     (case args of
        (off, lim, pblg) \<Rightarrow>
          (case getLocalRecords n tid lid off lim of
             (recs, err) \<Rightarrow>
               (let f1 = (if err \<noteq> None then 1 else 0);
                    sched = (if err = Some ErrOffsetIsMissing
                             then [Schedule queueGetRecords pid tid callPriorityHigh
                                     updateRecordsFromPeer]
                             else [])
                in case convertRecords l recs of
                     (prs, f2) \<Rightarrow>
                       (if pblg = None \<and> length prs = 0 then None
                        else Some \<lparr>re_LogID = lid, re_Records = prs, re_Log = pblg\<rparr>,
                        f1 + f2,
                        Call_getLocalRecords tid lid off lim # sched))))"

text \<open>
  The fan-out and the join. The tasks run concurrently in the source; here they are taken
  in the order of the local logs, one of the interleavings. The order decides only the
  order of the reply entries and of the events.
\<close>

definition fanOut ::
  "net \<Rightarrow> libs \<Rightarrow> peer_ID \<Rightarrow> GetRecordsRequest_Body \<Rightarrow> thread_Info
     \<Rightarrow> (GetRecordsReply_LogEntry option \<times> 32 word \<times> event list) list" where
  "fanOut n l pid body info =
     (let reqd = reqd_of (gr_Logs body);
          logRecordLimit = MaxPullLimit n sdiv int (length (Logs info))
      in map (\<lambda>lg. fetchTask n l pid (gr_ThreadID body) (ID lg) (fetchArgs reqd logRecordLimit lg))
           (Logs info))"

definition GetRecords ::
  "net \<Rightarrow> libs \<Rightarrow> GetRecordsRequest_Body Request \<Rightarrow> GetRecordsReply outcome" where
  "GetRecords n l req =
     (case verifyRequest l (Header req) (map_option (Marshal_GetRecords l) (Body req)) of
        Inl err \<Rightarrow> ((None, Some err), [])
      | Inr pid \<Rightarrow>
         (let body = the (Body req); tid = gr_ThreadID body; pbrecs = \<lparr>reply_Logs = []\<rparr>
          in case checkServiceKey n tid (gr_ServiceKey body) of
               Some err \<Rightarrow> ((Some pbrecs, Some err), [])
             | None \<Rightarrow>
                (case headsChanged n l body of
                   Inl err \<Rightarrow> ((None, Some (Plain err)), [])
                 | Inr False \<Rightarrow> ((Some pbrecs, None), [])
                 | Inr True \<Rightarrow>
                    (case GetThread (store n) tid of
                       (info, Some err) \<Rightarrow> ((None, Some (Plain err)), [])
                     | (info, None) \<Rightarrow>
                         if length (Logs info) = 0 then ((Some pbrecs, None), [])
                         else
                           (let tasks = fanOut n l pid body info;
                                failures = sum_list (map (\<lambda>t. fst (snd t)) tasks)
                            in ((Some (pbrecs\<lparr>reply_Logs := List.map_filter fst tasks\<rparr>), None),
                                concat (map (\<lambda>t. snd (snd t)) tasks) @
                                (if tStat n \<and> failures = 0
                                 then [Apply pid tid threadStatusUploadDone] else [])))))))"

subsection \<open>PushRecord\<close>

definition PushRecord :: "net \<Rightarrow> libs \<Rightarrow> PushRecordRequest_Body Request \<Rightarrow> unit outcome" where
  "PushRecord n l req =
     (case verifyRequest l (Header req) (map_option (Marshal_PushRecord l) (Body req)) of
        Inl err \<Rightarrow> ((None, Some err), [])
      | Inr pid \<Rightarrow>
         (let body = the (Body req); tid = pr_ThreadID body
          in case store_PubKey (store n) tid (pr_LogID body) of
               Inl err \<Rightarrow> ((None, Some (Status Internal (ErrorOf err))), [])
             | Inr None \<Rightarrow> ((None, Some (Status NotFound (Lit ''log not found''))), [])
             | Inr (Some logpk) \<Rightarrow>
                (case ServiceKey (store n) tid of
                   Inl err \<Rightarrow> ((None, Some (Status Internal (ErrorOf err))), [])
                 | Inr key \<Rightarrow>
                    (case RecordFromProto l (pr_Record body) key of
                       Inl err \<Rightarrow> ((None, Some (Status Internal (ErrorOf err))), [])
                     | Inr rec \<Rightarrow>
                        (case isKnown n (rec_Cid rec) of
                           Inl err \<Rightarrow> ((None, Some (Status Internal (ErrorOf err))), [])
                         | Inr True \<Rightarrow>
                             ((Some (), None),
                              if tStat n then [Apply pid tid threadStatusDownloadDone] else [])
                         | Inr False \<Rightarrow>
                            (case rec_Verify l rec logpk of
                               Some err \<Rightarrow>
                                 ((None, Some (Status Unauthenticated (ErrorOf err))), [])
                             | None \<Rightarrow>
                                (let started =
                                       (if tStat n then [Apply pid tid threadStatusDownloadStarted]
                                        else []);
                                     deferred =
                                       (\<lambda>final. if tStat n then [Apply pid tid final] else [])
                                 in case PutRecord n tid (pr_LogID body) rec of
                                      Some err \<Rightarrow>
                                        ((None, Some (Status Internal (ErrorOf err))),
                                         started @ [Call_PutRecord tid (pr_LogID body) rec] @
                                         deferred threadStatusDownloadFailed)
                                    | None \<Rightarrow>
                                        ((Some (), None),
                                         started @ [Call_PutRecord tid (pr_LogID body) rec] @
                                         deferred threadStatusDownloadDone))))))))"

subsection \<open>ExchangeEdges\<close>

text \<open>The body of the loop over the requested threads: the reply entry, or the error the
  handler returns with, and the events of this entry.\<close>

definition exchangeEntry ::
  "net \<Rightarrow> peer_ID \<Rightarrow> ExchangeEdgesRequest_Body_ThreadEntry
     \<Rightarrow> (go_error + ExchangeEdgesReply_ThreadEdges) \<times> event list" where
  "exchangeEntry n pid entry =
     (let tid = ThreadID entry
      in case localEdges n tid of
           Inr (addrsEdgeLocal, headsEdgeLocal) \<Rightarrow>
             (let addrsEdgeRemote = AddressEdge entry;
                  headsEdgeRemote = HeadsEdge entry
              in (Inr \<lparr>te_ThreadID = tid, te_Exists = True,
                       te_AddressEdge = addrsEdgeLocal, te_HeadsEdge = headsEdgeLocal\<rparr>,
                  (if addrsEdgeLocal \<noteq> addrsEdgeRemote
                   then [Schedule queueGetLogs pid tid callPriorityLow updateLogsFromPeer]
                   else []) @
                  (if headsEdgeLocal \<noteq> headsEdgeRemote
                   then [Schedule queueGetRecords pid tid callPriorityLow updateRecordsFromPeer]
                   else if tStat n
                   then [Apply pid tid threadStatusDownloadDone,
                         Apply pid tid threadStatusUploadDone]
                   else [])))
         | Inl err \<Rightarrow>
             if err = errNoAddrsEdge then
               (Inr \<lparr>te_ThreadID = tid, te_Exists = False, te_AddressEdge = 0, te_HeadsEdge = 0\<rparr>,
                [Schedule queueGetLogs pid tid callPriorityHigh updateLogsThenSubscribe])
             else if err = errNoHeadsEdge then
               (Inr \<lparr>te_ThreadID = tid, te_Exists = False, te_AddressEdge = 0, te_HeadsEdge = 0\<rparr>,
                [Schedule queueGetRecords pid tid callPriorityLow updateRecordsFromPeer])
             else (Inl (Wrapf (''getting edges for '' @ tid) err), []))"

fun exchangeLoop ::
  "net \<Rightarrow> peer_ID \<Rightarrow> ExchangeEdgesRequest_Body_ThreadEntry list \<Rightarrow> ExchangeEdgesReply
     \<Rightarrow> ExchangeEdgesReply outcome" where
  "exchangeLoop n pid [] reply = ((Some reply, None), [])"
| "exchangeLoop n pid (entry # rest) reply =
     (case exchangeEntry n pid entry of
        (Inl err, evs) \<Rightarrow> ((None, Some (Plain err)), evs)
      | (Inr edges, evs) \<Rightarrow>
         (case exchangeLoop n pid rest (reply\<lparr>Edges := Edges reply @ [edges]\<rparr>) of
            (res, evs') \<Rightarrow> (res, evs @ evs')))"

definition ExchangeEdges ::
  "net \<Rightarrow> libs \<Rightarrow> ExchangeEdgesRequest_Body Request \<Rightarrow> ExchangeEdgesReply outcome" where
  "ExchangeEdges n l req =
     (case verifyRequest l (Header req) (map_option (Marshal_ExchangeEdges l) (Body req)) of
        Inl err \<Rightarrow> ((None, Some err), [])
      | Inr pid \<Rightarrow> exchangeLoop n pid (Threads (the (Body req))) \<lparr>Edges = []\<rparr>)"

text \<open>
  What a worker does when it runs a scheduled function for a peer and a thread. The third
  case is the function literal of \<open>ExchangeEdges\<close>.
\<close>

fun runCall :: "net \<Rightarrow> call \<Rightarrow> peer_ID \<Rightarrow> thread_ID \<Rightarrow> go_error option \<times> event list" where
  "runCall n updateLogsFromPeer p t = (net_updateLogsFromPeer n p t, [Call_updateLogsFromPeer p t])"
| "runCall n updateRecordsFromPeer p t =
     (net_updateRecordsFromPeer n p t, [Call_updateRecordsFromPeer p t])"
| "runCall n updateLogsThenSubscribe p t =
     (case net_updateLogsFromPeer n p t of
        Some err \<Rightarrow> (Some err, [Call_updateLogsFromPeer p t])
      | None \<Rightarrow>
          if ps n then (ps_Add n t, [Call_updateLogsFromPeer p t, Call_psAdd t])
          else (None, [Call_updateLogsFromPeer p t]))"

section \<open>What a per-log task of GetRecords reads\<close>

text \<open>
  The records and the error that \<open>getLocalRecords\<close> hands to the task of a local log, and
  whether the task raises the failure counter: the fetch failed, or one of the fetched
  records does not convert (the loop reaches the first such record and breaks there).
\<close>

definition fetched ::
  "net \<Rightarrow> GetRecordsRequest_Body \<Rightarrow> thread_Info \<Rightarrow> LogInfo \<Rightarrow> Record list \<times> go_error option" where
  "fetched n body info lg =
     (case fetchArgs (reqd_of (gr_Logs body)) (MaxPullLimit n sdiv int (length (Logs info))) lg of
        (off, lim, pblg) \<Rightarrow> getLocalRecords n (gr_ThreadID body) (ID lg) off lim)"

definition taskFailed ::
  "net \<Rightarrow> libs \<Rightarrow> GetRecordsRequest_Body \<Rightarrow> thread_Info \<Rightarrow> LogInfo \<Rightarrow> bool" where
  "taskFailed n l body info lg =
     (snd (fetched n body info lg) \<noteq> None
      \<or> list_ex (\<lambda>r. isl (RecordToProto l r)) (fst (fetched n body info lg)))"

text \<open>How often the task of a local log raises the failure counter.\<close>

definition taskFailures ::
  "net \<Rightarrow> libs \<Rightarrow> GetRecordsRequest_Body \<Rightarrow> thread_Info \<Rightarrow> LogInfo \<Rightarrow> nat" where
  "taskFailures n l body info lg =
     (if snd (fetched n body info lg) \<noteq> None then 1 else 0) +
     (if list_ex (\<lambda>r. isl (RecordToProto l r)) (fst (fetched n body info lg)) then 1 else 0)"

section \<open>A sample peer\<close>

text \<open>
  A store that holds one thread with a service key, no read key and one log; a network
  with the status registry and pubsub present; libraries that accept every signature.
  The examples below vary single answers of these collaborators.
\<close>

definition log1 :: LogInfo where
  "log1 = \<lparr>ID = ''L1'', PubKey = [7], Addrs = [''/ip4/10.0.0.1''], Head = Cid ''h1''\<rparr>"

definition rec1 :: Record where
  "rec1 = \<lparr>rec_Cid = Cid ''c1'', rec_Sig = [1]\<rparr>"

definition prec1 :: Log_Record where
  "prec1 = \<lparr>RecordNode = [1], EventNode = [2], HeaderNode = [3], BodyNode = [4]\<rparr>"

definition store0 :: logstore where
  "store0 =
     \<lparr>GetThread = (\<lambda>t. (\<lparr>Key = \<lparr>service = Some [1], read = None\<rparr>, Logs = [log1]\<rparr>, None)),
      ServiceKey = (\<lambda>t. Inr (Some [1])),
      store_PubKey = (\<lambda>t i. Inr (Some [7])),
      store_HeadsEdge = (\<lambda>t. Inr 5),
      store_AddrsEdge = (\<lambda>t. Inr 3),
      AddServiceKey = (\<lambda>t k. None),
      AddReadKey = (\<lambda>t k. None)\<rparr>"

definition net0 :: net where
  "net0 =
     \<lparr>store = store0, tStat = True, ps = True, MaxPullLimit = 10000,
      createExternalLogsIfNotExist = (\<lambda>t ls. None),
      isKnown = (\<lambda>c. Inr False),
      PutRecord = (\<lambda>t i r. None),
      getLocalRecords = (\<lambda>t i c k. ([rec1], None)),
      net_updateLogsFromPeer = (\<lambda>p t. None),
      net_updateRecordsFromPeer = (\<lambda>p t. None),
      ps_Add = (\<lambda>t. None)\<rparr>"

definition libs0 :: libs where
  "libs0 =
     \<lparr>Marshal_GetLogs = (\<lambda>b. Inr []),
      Marshal_PushLog = (\<lambda>b. Inr []),
      Marshal_GetRecords = (\<lambda>b. Inr []),
      Marshal_PushRecord = (\<lambda>b. Inr []),
      Marshal_ExchangeEdges = (\<lambda>b. Inr []),
      Verify = (\<lambda>k p s. (True, None)),
      IDFromPublicKey = (\<lambda>k. Inr ''P''),
      RecordFromProto = (\<lambda>r k. Inr rec1),
      RecordToProto = (\<lambda>r. Inr prec1),
      rec_Verify = (\<lambda>r k. None),
      ComputeHeadsEdge = (\<lambda>hs. of_nat (length hs))\<rparr>"

definition hdr0 :: Header where
  "hdr0 = \<lparr>hdr_PubKey = [9], hdr_Signature = [0]\<rparr>"

definition pushRecordBody0 :: PushRecordRequest_Body where
  "pushRecordBody0 = \<lparr>pr_ThreadID = ''T'', pr_LogID = ''L1'', pr_Record = prec1\<rparr>"

definition pushRecordReq0 :: "PushRecordRequest_Body Request" where
  "pushRecordReq0 = \<lparr>Header = Some hdr0, Body = Some pushRecordBody0\<rparr>"

text \<open>A store that lacks the addresses of thread \<open>U\<close> and the heads of thread \<open>V\<close>.\<close>

definition storeE :: logstore where
  "storeE =
     store0\<lparr>store_AddrsEdge := (\<lambda>t. if t = ''U'' then Inl ErrThreadNotFound else Inr 3),
            store_HeadsEdge := (\<lambda>t. if t = ''V'' then Inl ErrThreadNotFound else Inr 5)\<rparr>"

definition netE :: net where
  "netE = net0\<lparr>store := storeE\<rparr>"

definition exchangeBody0 :: ExchangeEdgesRequest_Body where
  "exchangeBody0 =
     \<lparr>Threads = [\<lparr>ThreadID = ''T'', AddressEdge = 3, HeadsEdge = 6\<rparr>,
                 \<lparr>ThreadID = ''U'', AddressEdge = 0, HeadsEdge = 0\<rparr>,
                 \<lparr>ThreadID = ''V'', AddressEdge = 3, HeadsEdge = 0\<rparr>]\<rparr>"

definition exchangeReq0 :: "ExchangeEdgesRequest_Body Request" where
  "exchangeReq0 = \<lparr>Header = Some hdr0, Body = Some exchangeBody0\<rparr>"

definition exchangeBody1 :: ExchangeEdgesRequest_Body where
  "exchangeBody1 = \<lparr>Threads = [\<lparr>ThreadID = ''T'', AddressEdge = 4, HeadsEdge = 5\<rparr>]\<rparr>"

definition exchangeReq1 :: "ExchangeEdgesRequest_Body Request" where
  "exchangeReq1 = \<lparr>Header = Some hdr0, Body = Some exchangeBody1\<rparr>"

text \<open>A store with no service key, and requests without a key, with a wrong key and with
  the stored key.\<close>

definition netNoKey :: net where
  "netNoKey = net0\<lparr>store := store0\<lparr>ServiceKey := (\<lambda>t. Inr None)\<rparr>\<rparr>"

definition getLogsBodyNoKey :: GetLogsRequest_Body where
  "getLogsBodyNoKey = \<lparr>gl_ThreadID = ''T'', gl_ServiceKey = None\<rparr>"

definition getLogsReqNoKey :: "GetLogsRequest_Body Request" where
  "getLogsReqNoKey = \<lparr>Header = Some hdr0, Body = Some getLogsBodyNoKey\<rparr>"

definition getLogsBodyWrong :: GetLogsRequest_Body where
  "getLogsBodyWrong = \<lparr>gl_ThreadID = ''T'', gl_ServiceKey = Some (ProtoKey (Some [2]))\<rparr>"

definition getLogsReqWrong :: "GetLogsRequest_Body Request" where
  "getLogsReqWrong = \<lparr>Header = Some hdr0, Body = Some getLogsBodyWrong\<rparr>"

definition getRecordsBody0 :: GetRecordsRequest_Body where
  "getRecordsBody0 =
     \<lparr>gr_ThreadID = ''T'', gr_ServiceKey = Some (ProtoKey (Some [1])),
      gr_Logs = [\<lparr>LogID = ''L1'', Offset = Cid ''h1'', Limit = 100\<rparr>]\<rparr>"

definition getRecordsReq0 :: "GetRecordsRequest_Body Request" where
  "getRecordsReq0 = \<lparr>Header = Some hdr0, Body = Some getRecordsBody0\<rparr>"






text \<open>A push of a log for a thread the store does not know, carrying both keys; and one for
  the sample thread, which has a service key but no read key.\<close>

definition netNoThread :: net where
  "netNoThread =
     net0\<lparr>store := store0\<lparr>GetThread := (\<lambda>t. (\<lparr>Key = \<lparr>service = None, read = None\<rparr>,
                                                 Logs = []\<rparr>, Some ErrThreadNotFound))\<rparr>\<rparr>"

definition pushLogBody0 :: PushLogRequest_Body where
  "pushLogBody0 =
     \<lparr>pl_ThreadID = ''T'', pl_Log = logToProto log1,
      pl_ServiceKey = Some (ProtoKey (Some [1])), pl_ReadKey = Some (ProtoKey (Some [2]))\<rparr>"

definition pushLogReq0 :: "PushLogRequest_Body Request" where
  "pushLogReq0 = \<lparr>Header = Some hdr0, Body = Some pushLogBody0\<rparr>"

text \<open>A thread with two logs; fetching the second fails because the offset is missing.\<close>

definition log2 :: LogInfo where
  "log2 = \<lparr>ID = ''L2'', PubKey = [8], Addrs = [''/ip4/10.0.0.2''], Head = Cid ''h2''\<rparr>"

definition netTwo :: net where
  "netTwo =
     net0\<lparr>store := store0\<lparr>GetThread := (\<lambda>t. (\<lparr>Key = \<lparr>service = Some [1], read = None\<rparr>,
                                                 Logs = [log1, log2]\<rparr>, None))\<rparr>,
          getLocalRecords := (\<lambda>t i c k. if i = ''L2'' then ([], Some ErrOffsetIsMissing)
                                         else ([rec1], None))\<rparr>"

section \<open>The semaphore\<close>

lemma unreleased_Cons:
  "unreleased (m # ms) =
     (if m = Acquired then 1 else if m = Released then - 1 else 0) + unreleased ms"
  by (cases m) (simp_all add: unreleased_def)

lemma run_calls_inner:
  "run_calls cs s0 = Some (s, ms) \<Longrightarrow> int (inner s) = int (inner s0) + unreleased ms"
proof (induction cs arbitrary: s0 ms)
  case Nil
  then show ?case by (simp add: unreleased_def)
next
  case (Cons c cs)
  show ?case
  proof (cases c)
    case CallAcquire
    with Cons.prems obtain s1 ms1 where a: "Acquire s0 = Some s1"
      and r: "run_calls cs s1 = Some (s, ms1)" and m: "ms = Acquired # ms1"
      by (auto split: option.splits)
    from a have "inner s1 = inner s0 + 1"
      by (auto simp: Acquire_def split: if_splits)
    with Cons.IH [OF r] m show ?thesis by (simp add: unreleased_Cons)
  next
    case CallTryAcquire
    with Cons.prems obtain ok s1 ms1 where a: "TryAcquire s0 = (ok, s1)"
      and r: "run_calls cs s1 = Some (s, ms1)"
      and m: "ms = (if ok then Acquired else Refused) # ms1"
      by (auto split: prod.splits)
    from a have "inner s1 = (if ok then inner s0 + 1 else inner s0)"
      by (auto simp: TryAcquire_def split: if_splits)
    with Cons.IH [OF r] m show ?thesis by (simp add: unreleased_Cons)
  next
    case CallRelease
    with Cons.prems obtain s1 ms1 where a: "Release s0 = Inr s1"
      and r: "run_calls cs s1 = Some (s, ms1)" and m: "ms = Released # ms1"
      by (auto split: sum.splits)
    from a have "0 < inner s0 \<and> inner s1 = inner s0 - 1"
      by (auto simp: Release_def split: if_splits)
    with Cons.IH [OF r] m show ?thesis by (simp add: unreleased_Cons)
  qed
qed

text \<open>
  Claim C9. Take any history of calls on a new semaphore in which every call returned.
  \<open>Release\<close> then panics with "release before acquire" exactly when the acquires that
  succeeded and the releases balance, that is when no acquire is unreleased; when the
  caller holds the semaphore (some acquire is unreleased) \<open>Release\<close> returns and takes one
  token out of the channel.
\<close>

theorem Release_panics_iff_none_unreleased:
  assumes "NewSemaphore cap = Inr s0" and "run_calls cs s0 = Some (s, ms)"
  shows "(Release s = Inl ''thread semaphore inconsistency: release before acquire!'')
           = (unreleased ms = 0)
         \<and> (0 < unreleased ms \<longrightarrow> (\<exists>s'. Release s = Inr s' \<and> inner s' = inner s - 1))"
proof -
  from assms(1) have "inner s0 = 0"
    by (auto simp: NewSemaphore_def split: if_splits)
  with run_calls_inner [OF assms(2)] have "int (inner s) = unreleased ms" by simp
  then show ?thesis by (auto simp: Release_def)
qed

theorem Release_panics_iff_none_unreleased_witness:
  "NewSemaphore 1 = Inr \<lparr>capacity = 1, inner = 0\<rparr>
   \<and> run_calls [CallAcquire, CallTryAcquire, CallRelease] \<lparr>capacity = 1, inner = 0\<rparr>
       = Some (\<lparr>capacity = 1, inner = 0\<rparr>, [Acquired, Refused, Released])
   \<and> unreleased [Acquired, Refused, Released] = 0
   \<and> Release \<lparr>capacity = 1, inner = 0\<rparr>
       = Inl ''thread semaphore inconsistency: release before acquire!''"
proof -
  have a: "NewSemaphore 1 = Inr \<lparr>capacity = 1, inner = 0\<rparr>"
    by (simp add: NewSemaphore_def)
  have b: "run_calls [CallAcquire, CallTryAcquire, CallRelease] \<lparr>capacity = 1, inner = 0\<rparr>
       = Some (\<lparr>capacity = 1, inner = 0\<rparr>, [Acquired, Refused, Released])"
    by (simp add: Acquire_def TryAcquire_def Release_def)
  have c: "unreleased [Acquired, Refused, Released] = 0"
    by (simp add: unreleased_def)
  from Release_panics_iff_none_unreleased [OF a b] a b c show ?thesis by simp
qed

section \<open>PushRecord\<close>

lemma verifyRequest_body:
  "verifyRequest l h b = Inr pid \<Longrightarrow> \<exists>payload. b = Some (Inr payload)"
  by (auto simp: verifyRequest_def split: option.splits sum.splits prod.splits if_splits)

text \<open>
  Claim C1. A verified push of a record whose log is known, that decodes under the
  stored service key and whose CID the network already knows: the handler returns the
  empty reply with no error, calls \<open>PutRecord\<close> not at all, and its only event is
  \<open>DownloadDone\<close> for the caller and the thread when the status registry is present.
\<close>

theorem PushRecord_known_record:
  assumes "verifyRequest l (Header req) (map_option (Marshal_PushRecord l) (Body req)) = Inr pid"
    and "Body req = Some body"
    and "store_PubKey (store n) (pr_ThreadID body) (pr_LogID body) = Inr (Some logpk)"
    and "ServiceKey (store n) (pr_ThreadID body) = Inr key"
    and "RecordFromProto l (pr_Record body) key = Inr rec"
    and "isKnown n (rec_Cid rec) = Inr True"
  shows "fst (PushRecord n l req) = (Some (), None)
         \<and> (\<forall>t i r. Call_PutRecord t i r \<notin> set (snd (PushRecord n l req)))
         \<and> snd (PushRecord n l req) =
             (if tStat n then [Apply pid (pr_ThreadID body) threadStatusDownloadDone] else [])"
  using assms by (simp add: PushRecord_def Let_def)

theorem PushRecord_known_record_witness:
  "verifyRequest libs0 (Header pushRecordReq0)
      (map_option (Marshal_PushRecord libs0) (Body pushRecordReq0)) = Inr ''P''
   \<and> isKnown (net0\<lparr>isKnown := \<lambda>c. Inr True\<rparr>) (rec_Cid rec1) = Inr True
   \<and> PushRecord (net0\<lparr>isKnown := \<lambda>c. Inr True\<rparr>) libs0 pushRecordReq0
       = ((Some (), None), [Apply ''P'' ''T'' threadStatusDownloadDone])"
proof -
  let ?n = "net0\<lparr>isKnown := \<lambda>c. Inr True\<rparr>"
  have v: "verifyRequest libs0 (Header pushRecordReq0)
      (map_option (Marshal_PushRecord libs0) (Body pushRecordReq0)) = Inr ''P''"
    by (simp add: verifyRequest_def libs0_def pushRecordReq0_def)
  have b: "Body pushRecordReq0 = Some pushRecordBody0"
    by (simp add: pushRecordReq0_def)
  have pk: "store_PubKey (store ?n) (pr_ThreadID pushRecordBody0) (pr_LogID pushRecordBody0)
      = Inr (Some [7])"
    by (simp add: net0_def store0_def)
  have sk: "ServiceKey (store ?n) (pr_ThreadID pushRecordBody0) = Inr (Some [1])"
    by (simp add: net0_def store0_def)
  have rf: "RecordFromProto libs0 (pr_Record pushRecordBody0) (Some [1]) = Inr rec1"
    by (simp add: libs0_def)
  have k: "isKnown ?n (rec_Cid rec1) = Inr True"
    by simp
  have t: "tStat ?n" "pr_ThreadID pushRecordBody0 = ''T''"
    by (simp_all add: net0_def pushRecordBody0_def)
  from PushRecord_known_record [OF v b pk sk rf k] v k t show ?thesis
    by (simp add: prod_eq_iff)
qed

text \<open>
  Claim C6. With the registry present, the record not yet known and its signature valid,
  the handler emits \<open>DownloadStarted\<close>, calls \<open>PutRecord\<close> and then emits exactly one
  terminal status: \<open>DownloadFailed\<close> when \<open>PutRecord\<close> fails, and the call then returns
  \<open>Internal\<close>; \<open>DownloadDone\<close> when it succeeds, and the call returns the empty reply.
\<close>

theorem PushRecord_terminal_status:
  assumes "verifyRequest l (Header req) (map_option (Marshal_PushRecord l) (Body req)) = Inr pid"
    and "Body req = Some body"
    and "store_PubKey (store n) (pr_ThreadID body) (pr_LogID body) = Inr (Some logpk)"
    and "ServiceKey (store n) (pr_ThreadID body) = Inr key"
    and "RecordFromProto l (pr_Record body) key = Inr rec"
    and "isKnown n (rec_Cid rec) = Inr False"
    and "rec_Verify l rec logpk = None"
    and "tStat n"
  shows "snd (PushRecord n l req) =
           [Apply pid (pr_ThreadID body) threadStatusDownloadStarted,
            Call_PutRecord (pr_ThreadID body) (pr_LogID body) rec,
            Apply pid (pr_ThreadID body)
              (if PutRecord n (pr_ThreadID body) (pr_LogID body) rec = None
               then threadStatusDownloadDone else threadStatusDownloadFailed)]
         \<and> fst (PushRecord n l req) =
             (case PutRecord n (pr_ThreadID body) (pr_LogID body) rec of
                None \<Rightarrow> (Some (), None)
              | Some err \<Rightarrow> (None, Some (Status Internal (ErrorOf err))))
         \<and> length (filter (\<lambda>e. \<exists>p t. e = Apply p t threadStatusDownloadDone
                                   \<or> e = Apply p t threadStatusDownloadFailed)
                     (snd (PushRecord n l req))) = 1"
  using assms by (simp add: PushRecord_def Let_def split: option.splits)

theorem PushRecord_terminal_status_witness:
  "isKnown net0 (rec_Cid rec1) = Inr False \<and> rec_Verify libs0 rec1 [7] = None \<and> tStat net0
   \<and> PushRecord (net0\<lparr>PutRecord := \<lambda>t i r. Some (OtherError ''disk'')\<rparr>) libs0 pushRecordReq0
       = ((None, Some (Status Internal (ErrorOf (OtherError ''disk'')))),
          [Apply ''P'' ''T'' threadStatusDownloadStarted,
           Call_PutRecord ''T'' ''L1'' rec1,
           Apply ''P'' ''T'' threadStatusDownloadFailed])"
proof -
  let ?n = "net0\<lparr>PutRecord := \<lambda>t i r. Some (OtherError ''disk'')\<rparr>"
  have v: "verifyRequest libs0 (Header pushRecordReq0)
      (map_option (Marshal_PushRecord libs0) (Body pushRecordReq0)) = Inr ''P''"
    by (simp add: verifyRequest_def libs0_def pushRecordReq0_def)
  have b: "Body pushRecordReq0 = Some pushRecordBody0"
    by (simp add: pushRecordReq0_def)
  have pk: "store_PubKey (store ?n) (pr_ThreadID pushRecordBody0) (pr_LogID pushRecordBody0)
      = Inr (Some [7])"
    by (simp add: net0_def store0_def)
  have sk: "ServiceKey (store ?n) (pr_ThreadID pushRecordBody0) = Inr (Some [1])"
    by (simp add: net0_def store0_def)
  have rf: "RecordFromProto libs0 (pr_Record pushRecordBody0) (Some [1]) = Inr rec1"
    by (simp add: libs0_def)
  have k: "isKnown ?n (rec_Cid rec1) = Inr False" "isKnown net0 (rec_Cid rec1) = Inr False"
    by (simp_all add: net0_def)
  have rv: "rec_Verify libs0 rec1 [7] = None"
    by (simp add: libs0_def)
  have t: "tStat ?n" "tStat net0"
    by (simp_all add: net0_def)
  have ids: "pr_ThreadID pushRecordBody0 = ''T''" "pr_LogID pushRecordBody0 = ''L1''"
    by (simp_all add: pushRecordBody0_def)
  from PushRecord_terminal_status [OF v b pk sk rf k(1) rv t(1)] k rv t ids show ?thesis
    by (simp add: prod_eq_iff)
qed

section \<open>ExchangeEdges\<close>

lemma localEdges_both:
  "store_AddrsEdge (store n) tid = Inr a \<Longrightarrow> store_HeadsEdge (store n) tid = Inr h
   \<Longrightarrow> localEdges n tid = Inr (a, h)"
  by (simp add: localEdges_def)

lemma localEdges_no_addrs:
  "store_AddrsEdge (store n) tid = Inl err \<Longrightarrow> errors_Is err ErrThreadNotFound
   \<Longrightarrow> localEdges n tid = Inl errNoAddrsEdge"
  by (simp add: localEdges_def)

lemma localEdges_no_heads:
  "store_AddrsEdge (store n) tid = Inr a \<Longrightarrow> store_HeadsEdge (store n) tid = Inl err
   \<Longrightarrow> errors_Is err ErrThreadNotFound \<Longrightarrow> localEdges n tid = Inl errNoHeadsEdge"
  by (simp add: localEdges_def)

text \<open>When the loop runs to its end, every entry has added its reply entry and its events.\<close>

lemma exchangeLoop_answered:
  "exchangeLoop n pid es r = ((Some reply, None), evs)
   \<Longrightarrow> map Inr (Edges reply) = map Inr (Edges r) @ map (\<lambda>e. fst (exchangeEntry n pid e)) es
       \<and> evs = concat (map (\<lambda>e. snd (exchangeEntry n pid e)) es)"
proof (induction es arbitrary: r evs)
  case Nil
  then show ?case by simp
next
  case (Cons e es)
  obtain x evs1 where e1: "exchangeEntry n pid e = (x, evs1)"
    by (cases "exchangeEntry n pid e")
  show ?case
  proof (cases x)
    case (Inl err)
    with Cons.prems e1 show ?thesis by simp
  next
    case (Inr edges)
    obtain res evs2 where l2: "exchangeLoop n pid es (r\<lparr>Edges := Edges r @ [edges]\<rparr>) = (res, evs2)"
      by (cases "exchangeLoop n pid es (r\<lparr>Edges := Edges r @ [edges]\<rparr>)")
    with Cons.prems e1 Inr have "res = (Some reply, None)" and ev: "evs = evs1 @ evs2"
      by simp_all
    with l2 Cons.IH [of "r\<lparr>Edges := Edges r @ [edges]\<rparr>" evs2] e1 Inr show ?thesis
      by simp
  qed
qed

lemma ExchangeEdges_answered:
  assumes "verifyRequest l (Header req) (map_option (Marshal_ExchangeEdges l) (Body req)) = Inr pid"
    and "Body req = Some body"
    and "ExchangeEdges n l req = ((Some reply, None), evs)"
  shows "map Inr (Edges reply) = map (\<lambda>e. fst (exchangeEntry n pid e)) (Threads body)"
    and "evs = concat (map (\<lambda>e. snd (exchangeEntry n pid e)) (Threads body))"
  using assms exchangeLoop_answered [of n pid "Threads body" "\<lparr>Edges = []\<rparr>" reply evs]
  by (simp_all add: ExchangeEdges_def)

lemma exchangeEntry_both:
  assumes "store_AddrsEdge (store n) (ThreadID entry) = Inr a"
    and "store_HeadsEdge (store n) (ThreadID entry) = Inr h"
  shows "exchangeEntry n pid entry =
     (Inr \<lparr>te_ThreadID = ThreadID entry, te_Exists = True,
           te_AddressEdge = a, te_HeadsEdge = h\<rparr>,
      (if a \<noteq> AddressEdge entry
       then [Schedule queueGetLogs pid (ThreadID entry) callPriorityLow updateLogsFromPeer]
       else []) @
      (if h \<noteq> HeadsEdge entry
       then [Schedule queueGetRecords pid (ThreadID entry) callPriorityLow updateRecordsFromPeer]
       else if tStat n
       then [Apply pid (ThreadID entry) threadStatusDownloadDone,
             Apply pid (ThreadID entry) threadStatusUploadDone]
       else []))"
  using localEdges_both [OF assms] by (simp add: exchangeEntry_def Let_def)

lemma exchangeEntry_no_addrs:
  assumes "store_AddrsEdge (store n) (ThreadID entry) = Inl err"
    and "errors_Is err ErrThreadNotFound"
  shows "exchangeEntry n pid entry =
     (Inr \<lparr>te_ThreadID = ThreadID entry, te_Exists = False,
           te_AddressEdge = 0, te_HeadsEdge = 0\<rparr>,
      [Schedule queueGetLogs pid (ThreadID entry) callPriorityHigh updateLogsThenSubscribe])"
  using localEdges_no_addrs [OF assms] by (simp add: exchangeEntry_def Let_def)

lemma exchangeEntry_no_heads:
  assumes "store_AddrsEdge (store n) (ThreadID entry) = Inr a"
    and "store_HeadsEdge (store n) (ThreadID entry) = Inl err"
    and "errors_Is err ErrThreadNotFound"
  shows "exchangeEntry n pid entry =
     (Inr \<lparr>te_ThreadID = ThreadID entry, te_Exists = False,
           te_AddressEdge = 0, te_HeadsEdge = 0\<rparr>,
      [Schedule queueGetRecords pid (ThreadID entry) callPriorityLow updateRecordsFromPeer])"
  using localEdges_no_heads [OF assms] by (simp add: exchangeEntry_def Let_def)

lemma answered_nth:
  assumes "map Inr (Edges reply) = map (\<lambda>e. fst (exchangeEntry n pid e)) es"
    and "i < length es"
  shows "fst (exchangeEntry n pid (es ! i)) = Inr (Edges reply ! i)"
proof -
  from assms(1) have len: "length (Edges reply) = length es"
    by (metis length_map)
  from assms(1) have "map Inr (Edges reply) ! i = map (\<lambda>e. fst (exchangeEntry n pid e)) es ! i"
    by simp
  with len assms(2) show ?thesis by simp
qed

text \<open>
  Claim C2. Take a verified request that the handler answers. The reply has one entry per
  requested thread, in order, and the events are those of the entries, in order. For each
  entry: when the store gives both edges, the reply entry exists and carries the local
  edges, a low-priority \<open>updateLogsFromPeer\<close> is scheduled on the logs queue iff the address
  edges differ, and a low-priority \<open>updateRecordsFromPeer\<close> on the records queue iff the heads
  edges differ; when the store has no address edge for the thread, the reply entry has
  \<open>exists\<close> false and the one event is a high-priority schedule of the combined function;
  when it has the address edge but no heads edge, the reply entry has \<open>exists\<close> false and
  the one event is a low-priority \<open>updateRecordsFromPeer\<close>. The combined function, when run, first updates the
  logs from the peer and adds the thread to pubsub once that succeeded, if pubsub is there.
\<close>

theorem ExchangeEdges_reply_and_schedule:
  assumes "verifyRequest l (Header req) (map_option (Marshal_ExchangeEdges l) (Body req)) = Inr pid"
    and "Body req = Some body"
    and "ExchangeEdges n l req = ((Some reply, None), evs)"
  shows "length (Edges reply) = length (Threads body)
    \<and> evs = concat (map (\<lambda>e. snd (exchangeEntry n pid e)) (Threads body))
    \<and> (\<forall>i < length (Threads body).
         (\<forall>a h. store_AddrsEdge (store n) (ThreadID (Threads body ! i)) = Inr a
                \<and> store_HeadsEdge (store n) (ThreadID (Threads body ! i)) = Inr h
            \<longrightarrow> Edges reply ! i =
                  \<lparr>te_ThreadID = ThreadID (Threads body ! i), te_Exists = True,
                   te_AddressEdge = a, te_HeadsEdge = h\<rparr>
                \<and> (Schedule queueGetLogs pid (ThreadID (Threads body ! i)) callPriorityLow
                      updateLogsFromPeer \<in> set (snd (exchangeEntry n pid (Threads body ! i))))
                   = (a \<noteq> AddressEdge (Threads body ! i))
                \<and> (Schedule queueGetRecords pid (ThreadID (Threads body ! i)) callPriorityLow
                      updateRecordsFromPeer \<in> set (snd (exchangeEntry n pid (Threads body ! i))))
                   = (h \<noteq> HeadsEdge (Threads body ! i)))
       \<and> (\<forall>err. store_AddrsEdge (store n) (ThreadID (Threads body ! i)) = Inl err
                \<and> errors_Is err ErrThreadNotFound
            \<longrightarrow> Edges reply ! i =
                  \<lparr>te_ThreadID = ThreadID (Threads body ! i), te_Exists = False,
                   te_AddressEdge = 0, te_HeadsEdge = 0\<rparr>
                \<and> snd (exchangeEntry n pid (Threads body ! i)) =
                    [Schedule queueGetLogs pid (ThreadID (Threads body ! i)) callPriorityHigh
                       updateLogsThenSubscribe])
       \<and> (\<forall>a err. store_AddrsEdge (store n) (ThreadID (Threads body ! i)) = Inr a
                \<and> store_HeadsEdge (store n) (ThreadID (Threads body ! i)) = Inl err
                \<and> errors_Is err ErrThreadNotFound
            \<longrightarrow> Edges reply ! i =
                  \<lparr>te_ThreadID = ThreadID (Threads body ! i), te_Exists = False,
                   te_AddressEdge = 0, te_HeadsEdge = 0\<rparr>
                \<and> snd (exchangeEntry n pid (Threads body ! i)) =
                    [Schedule queueGetRecords pid (ThreadID (Threads body ! i)) callPriorityLow
                       updateRecordsFromPeer]))
    \<and> (\<forall>p t. hd (snd (runCall n updateLogsThenSubscribe p t)) = Call_updateLogsFromPeer p t
          \<and> (Call_psAdd t \<in> set (snd (runCall n updateLogsThenSubscribe p t)))
             = (net_updateLogsFromPeer n p t = None \<and> ps n))"
proof -
  note ans = ExchangeEdges_answered [OF assms]
  from ans(1) have len: "length (Edges reply) = length (Threads body)"
    by (metis length_map)
  have per: "\<And>i. i < length (Threads body) \<Longrightarrow>
      fst (exchangeEntry n pid (Threads body ! i)) = Inr (Edges reply ! i)"
    using answered_nth [OF ans(1)] .
  have both: "Edges reply ! i =
                  \<lparr>te_ThreadID = ThreadID (Threads body ! i), te_Exists = True,
                   te_AddressEdge = a, te_HeadsEdge = h\<rparr>
                \<and> (Schedule queueGetLogs pid (ThreadID (Threads body ! i)) callPriorityLow
                      updateLogsFromPeer \<in> set (snd (exchangeEntry n pid (Threads body ! i))))
                   = (a \<noteq> AddressEdge (Threads body ! i))
                \<and> (Schedule queueGetRecords pid (ThreadID (Threads body ! i)) callPriorityLow
                      updateRecordsFromPeer \<in> set (snd (exchangeEntry n pid (Threads body ! i))))
                   = (h \<noteq> HeadsEdge (Threads body ! i))"
    if "i < length (Threads body)"
      and "store_AddrsEdge (store n) (ThreadID (Threads body ! i)) = Inr a"
      and "store_HeadsEdge (store n) (ThreadID (Threads body ! i)) = Inr h" for i a h
    using per [OF that(1)] exchangeEntry_both [OF that(2,3), of pid] by simp
  have noaddrs: "Edges reply ! i =
                  \<lparr>te_ThreadID = ThreadID (Threads body ! i), te_Exists = False,
                   te_AddressEdge = 0, te_HeadsEdge = 0\<rparr>
                \<and> snd (exchangeEntry n pid (Threads body ! i)) =
                    [Schedule queueGetLogs pid (ThreadID (Threads body ! i)) callPriorityHigh
                       updateLogsThenSubscribe]"
    if "i < length (Threads body)"
      and "store_AddrsEdge (store n) (ThreadID (Threads body ! i)) = Inl err"
      and "errors_Is err ErrThreadNotFound" for i err
    using per [OF that(1)] exchangeEntry_no_addrs [OF that(2,3), of pid] by simp
  have noheads: "Edges reply ! i =
                  \<lparr>te_ThreadID = ThreadID (Threads body ! i), te_Exists = False,
                   te_AddressEdge = 0, te_HeadsEdge = 0\<rparr>
                \<and> snd (exchangeEntry n pid (Threads body ! i)) =
                    [Schedule queueGetRecords pid (ThreadID (Threads body ! i)) callPriorityLow
                       updateRecordsFromPeer]"
    if "i < length (Threads body)"
      and "store_AddrsEdge (store n) (ThreadID (Threads body ! i)) = Inr a"
      and "store_HeadsEdge (store n) (ThreadID (Threads body ! i)) = Inl err"
      and "errors_Is err ErrThreadNotFound" for i a err
    using per [OF that(1)] exchangeEntry_no_heads [OF that(2,3,4), of pid] by simp
  have comb: "hd (snd (runCall n updateLogsThenSubscribe p t)) = Call_updateLogsFromPeer p t
          \<and> (Call_psAdd t \<in> set (snd (runCall n updateLogsThenSubscribe p t)))
             = (net_updateLogsFromPeer n p t = None \<and> ps n)" for p t
    by (simp split: option.splits)
  from len ans(2) both noaddrs noheads comb show ?thesis
    by blast
qed

theorem ExchangeEdges_reply_and_schedule_witness:
  "verifyRequest libs0 (Header exchangeReq0)
      (map_option (Marshal_ExchangeEdges libs0) (Body exchangeReq0)) = Inr ''P''
   \<and> store_AddrsEdge (store netE) ''T'' = Inr 3 \<and> store_HeadsEdge (store netE) ''T'' = Inr 5
   \<and> store_AddrsEdge (store netE) ''U'' = Inl ErrThreadNotFound
   \<and> store_AddrsEdge (store netE) ''V'' = Inr 3
   \<and> store_HeadsEdge (store netE) ''V'' = Inl ErrThreadNotFound
   \<and> ExchangeEdges netE libs0 exchangeReq0 =
       ((Some \<lparr>Edges =
           [\<lparr>te_ThreadID = ''T'', te_Exists = True, te_AddressEdge = 3, te_HeadsEdge = 5\<rparr>,
            \<lparr>te_ThreadID = ''U'', te_Exists = False, te_AddressEdge = 0, te_HeadsEdge = 0\<rparr>,
            \<lparr>te_ThreadID = ''V'', te_Exists = False, te_AddressEdge = 0, te_HeadsEdge = 0\<rparr>]\<rparr>,
         None),
        [Schedule queueGetRecords ''P'' ''T'' callPriorityLow updateRecordsFromPeer,
         Schedule queueGetLogs ''P'' ''U'' callPriorityHigh updateLogsThenSubscribe,
         Schedule queueGetRecords ''P'' ''V'' callPriorityLow updateRecordsFromPeer])
   \<and> runCall netE updateLogsThenSubscribe ''P'' ''U'' =
       (None, [Call_updateLogsFromPeer ''P'' ''U'', Call_psAdd ''U''])"
proof -
  have v: "verifyRequest libs0 (Header exchangeReq0)
      (map_option (Marshal_ExchangeEdges libs0) (Body exchangeReq0)) = Inr ''P''"
    by (simp add: verifyRequest_def libs0_def exchangeReq0_def)
  have b: "Body exchangeReq0 = Some exchangeBody0"
    by (simp add: exchangeReq0_def)
  have st: "store_AddrsEdge (store netE) ''T'' = Inr 3" "store_HeadsEdge (store netE) ''T'' = Inr 5"
    "store_AddrsEdge (store netE) ''U'' = Inl ErrThreadNotFound"
    "store_AddrsEdge (store netE) ''V'' = Inr 3"
    "store_HeadsEdge (store netE) ''V'' = Inl ErrThreadNotFound"
    by (simp_all add: netE_def storeE_def)
  have t: "tStat netE" "ps netE" "net_updateLogsFromPeer netE ''P'' ''U'' = None"
    "ps_Add netE ''U'' = None"
    by (simp_all add: netE_def net0_def)
  have e0: "exchangeEntry netE ''P'' \<lparr>ThreadID = ''T'', AddressEdge = 3, HeadsEdge = 6\<rparr> =
      (Inr \<lparr>te_ThreadID = ''T'', te_Exists = True, te_AddressEdge = 3, te_HeadsEdge = 5\<rparr>,
       [Schedule queueGetRecords ''P'' ''T'' callPriorityLow updateRecordsFromPeer])"
    using exchangeEntry_both [of netE "\<lparr>ThreadID = ''T'', AddressEdge = 3, HeadsEdge = 6\<rparr>" 3 5 "''P''"] st
    by simp
  have e1: "exchangeEntry netE ''P'' \<lparr>ThreadID = ''U'', AddressEdge = 0, HeadsEdge = 0\<rparr> =
      (Inr \<lparr>te_ThreadID = ''U'', te_Exists = False, te_AddressEdge = 0, te_HeadsEdge = 0\<rparr>,
       [Schedule queueGetLogs ''P'' ''U'' callPriorityHigh updateLogsThenSubscribe])"
    using exchangeEntry_no_addrs [of netE "\<lparr>ThreadID = ''U'', AddressEdge = 0, HeadsEdge = 0\<rparr>"
        ErrThreadNotFound "''P''"] st
    by simp
  have e2: "exchangeEntry netE ''P'' \<lparr>ThreadID = ''V'', AddressEdge = 3, HeadsEdge = 0\<rparr> =
      (Inr \<lparr>te_ThreadID = ''V'', te_Exists = False, te_AddressEdge = 0, te_HeadsEdge = 0\<rparr>,
       [Schedule queueGetRecords ''P'' ''V'' callPriorityLow updateRecordsFromPeer])"
    using exchangeEntry_no_heads [of netE "\<lparr>ThreadID = ''V'', AddressEdge = 3, HeadsEdge = 0\<rparr>"
        3 ErrThreadNotFound "''P''"] st
    by simp
  have ans: "ExchangeEdges netE libs0 exchangeReq0 =
       ((Some \<lparr>Edges =
           [\<lparr>te_ThreadID = ''T'', te_Exists = True, te_AddressEdge = 3, te_HeadsEdge = 5\<rparr>,
            \<lparr>te_ThreadID = ''U'', te_Exists = False, te_AddressEdge = 0, te_HeadsEdge = 0\<rparr>,
            \<lparr>te_ThreadID = ''V'', te_Exists = False, te_AddressEdge = 0, te_HeadsEdge = 0\<rparr>]\<rparr>,
         None),
        [Schedule queueGetRecords ''P'' ''T'' callPriorityLow updateRecordsFromPeer,
         Schedule queueGetLogs ''P'' ''U'' callPriorityHigh updateLogsThenSubscribe,
         Schedule queueGetRecords ''P'' ''V'' callPriorityLow updateRecordsFromPeer])"
    using v b e0 e1 e2 by (simp add: ExchangeEdges_def exchangeBody0_def)
  have rc: "runCall netE updateLogsThenSubscribe ''P'' ''U'' =
       (None, [Call_updateLogsFromPeer ''P'' ''U'', Call_psAdd ''U''])"
    using t by simp
  from ExchangeEdges_reply_and_schedule [OF v b ans] v st ans rc show ?thesis
    by simp
qed

text \<open>
  Claim C10. In a verified request that the handler answers, take an entry for whose
  thread the store gives both edges. Among the events of that entry, \<open>DownloadDone\<close> and
  \<open>UploadDone\<close> for the caller and the thread occur exactly when the registry is present and
  the local heads edge equals the remote one. The address edges play no part: when they
  differ while the heads agree, the entry schedules the low-priority \<open>updateLogsFromPeer\<close>
  and emits both statuses.
\<close>

theorem ExchangeEdges_equal_heads_status:
  assumes "verifyRequest l (Header req) (map_option (Marshal_ExchangeEdges l) (Body req)) = Inr pid"
    and "Body req = Some body"
    and "ExchangeEdges n l req = ((Some reply, None), evs)"
  shows "evs = concat (map (\<lambda>e. snd (exchangeEntry n pid e)) (Threads body))
    \<and> (\<forall>entry \<in> set (Threads body).
         \<forall>a h. store_AddrsEdge (store n) (ThreadID entry) = Inr a
                \<and> store_HeadsEdge (store n) (ThreadID entry) = Inr h
            \<longrightarrow> (Apply pid (ThreadID entry) threadStatusDownloadDone
                    \<in> set (snd (exchangeEntry n pid entry)))
                   = (tStat n \<and> h = HeadsEdge entry)
                \<and> (Apply pid (ThreadID entry) threadStatusUploadDone
                    \<in> set (snd (exchangeEntry n pid entry)))
                   = (tStat n \<and> h = HeadsEdge entry)
                \<and> (tStat n \<and> h = HeadsEdge entry \<and> a \<noteq> AddressEdge entry
                    \<longrightarrow> snd (exchangeEntry n pid entry) =
                          [Schedule queueGetLogs pid (ThreadID entry) callPriorityLow
                             updateLogsFromPeer,
                           Apply pid (ThreadID entry) threadStatusDownloadDone,
                           Apply pid (ThreadID entry) threadStatusUploadDone]))"
proof -
  note ans = ExchangeEdges_answered [OF assms]
  have "(Apply pid (ThreadID entry) threadStatusDownloadDone
                    \<in> set (snd (exchangeEntry n pid entry)))
                   = (tStat n \<and> h = HeadsEdge entry)
                \<and> (Apply pid (ThreadID entry) threadStatusUploadDone
                    \<in> set (snd (exchangeEntry n pid entry)))
                   = (tStat n \<and> h = HeadsEdge entry)
                \<and> (tStat n \<and> h = HeadsEdge entry \<and> a \<noteq> AddressEdge entry
                    \<longrightarrow> snd (exchangeEntry n pid entry) =
                          [Schedule queueGetLogs pid (ThreadID entry) callPriorityLow
                             updateLogsFromPeer,
                           Apply pid (ThreadID entry) threadStatusDownloadDone,
                           Apply pid (ThreadID entry) threadStatusUploadDone])"
    if "store_AddrsEdge (store n) (ThreadID entry) = Inr a"
      and "store_HeadsEdge (store n) (ThreadID entry) = Inr h" for entry a h
    using exchangeEntry_both [OF that, of pid] by simp
  with ans(2) show ?thesis by blast
qed

theorem ExchangeEdges_equal_heads_status_witness:
  "verifyRequest libs0 (Header exchangeReq1)
      (map_option (Marshal_ExchangeEdges libs0) (Body exchangeReq1)) = Inr ''P''
   \<and> store_AddrsEdge (store net0) ''T'' = Inr 3 \<and> store_HeadsEdge (store net0) ''T'' = Inr 5
   \<and> tStat net0
   \<and> ExchangeEdges net0 libs0 exchangeReq1 =
       ((Some \<lparr>Edges =
           [\<lparr>te_ThreadID = ''T'', te_Exists = True, te_AddressEdge = 3, te_HeadsEdge = 5\<rparr>]\<rparr>,
         None),
        [Schedule queueGetLogs ''P'' ''T'' callPriorityLow updateLogsFromPeer,
         Apply ''P'' ''T'' threadStatusDownloadDone,
         Apply ''P'' ''T'' threadStatusUploadDone])"
proof -
  have v: "verifyRequest libs0 (Header exchangeReq1)
      (map_option (Marshal_ExchangeEdges libs0) (Body exchangeReq1)) = Inr ''P''"
    by (simp add: verifyRequest_def libs0_def exchangeReq1_def)
  have b: "Body exchangeReq1 = Some exchangeBody1"
    by (simp add: exchangeReq1_def)
  have st: "store_AddrsEdge (store net0) ''T'' = Inr 3" "store_HeadsEdge (store net0) ''T'' = Inr 5"
    "tStat net0"
    by (simp_all add: net0_def store0_def)
  have e0: "exchangeEntry net0 ''P'' \<lparr>ThreadID = ''T'', AddressEdge = 4, HeadsEdge = 5\<rparr> =
      (Inr \<lparr>te_ThreadID = ''T'', te_Exists = True, te_AddressEdge = 3, te_HeadsEdge = 5\<rparr>,
       [Schedule queueGetLogs ''P'' ''T'' callPriorityLow updateLogsFromPeer,
        Apply ''P'' ''T'' threadStatusDownloadDone,
        Apply ''P'' ''T'' threadStatusUploadDone])"
    using exchangeEntry_both [of net0 "\<lparr>ThreadID = ''T'', AddressEdge = 4, HeadsEdge = 5\<rparr>" 3 5 "''P''"] st
    by simp
  have ans: "ExchangeEdges net0 libs0 exchangeReq1 =
       ((Some \<lparr>Edges =
           [\<lparr>te_ThreadID = ''T'', te_Exists = True, te_AddressEdge = 3, te_HeadsEdge = 5\<rparr>]\<rparr>,
         None),
        [Schedule queueGetLogs ''P'' ''T'' callPriorityLow updateLogsFromPeer,
         Apply ''P'' ''T'' threadStatusDownloadDone,
         Apply ''P'' ''T'' threadStatusUploadDone])"
    using v b e0 by (simp add: ExchangeEdges_def exchangeBody1_def)
  from ExchangeEdges_equal_heads_status [OF v b ans] v st ans show ?thesis
    by simp
qed

section \<open>The service-key check\<close>

lemma checkServiceKey_None_iff:
  "(checkServiceKey n tid k = None)
     = (\<exists>sk. supplied k = Some sk \<and> ServiceKey (store n) tid = Inr (Some sk))"
  by (auto simp: checkServiceKey_def split: option.splits sum.splits)

lemma checkServiceKey_code:
  "status_Code (checkServiceKey n tid k) =
     (case supplied k of
        None \<Rightarrow> Unauthenticated
      | Some key \<Rightarrow>
         (case ServiceKey (store n) tid of
            Inl err \<Rightarrow> Internal
          | Inr None \<Rightarrow> NotFound
          | Inr (Some sk) \<Rightarrow> if key = sk then OK else Unauthenticated))"
  by (simp add: checkServiceKey_def split: option.splits sum.splits)

lemma GetLogs_check_fails:
  assumes "verifyRequest l (Header req) (map_option (Marshal_GetLogs l) (Body req)) = Inr pid"
    and "Body req = Some body"
    and "checkServiceKey n (gl_ThreadID body) (gl_ServiceKey body) = Some err"
  shows "GetLogs n l req = ((Some \<lparr>gl_Logs = []\<rparr>, Some err), [])"
  using assms by (simp add: GetLogs_def Let_def)

lemma GetRecords_check_fails:
  assumes "verifyRequest l (Header req) (map_option (Marshal_GetRecords l) (Body req)) = Inr pid"
    and "Body req = Some body"
    and "checkServiceKey n (gr_ThreadID body) (gr_ServiceKey body) = Some err"
  shows "GetRecords n l req = ((Some \<lparr>reply_Logs = []\<rparr>, Some err), [])"
  using assms by (simp add: GetRecords_def Let_def)

lemma GetLogs_code:
  assumes "verifyRequest l (Header req) (map_option (Marshal_GetLogs l) (Body req)) = Inr pid"
    and "Body req = Some body"
    and "checkServiceKey n (gl_ThreadID body) (gl_ServiceKey body) \<noteq> None"
  shows "status_Code (snd (fst (GetLogs n l req)))
           = status_Code (checkServiceKey n (gl_ThreadID body) (gl_ServiceKey body))"
  using assms GetLogs_check_fails [OF assms(1,2)] by auto

lemma GetRecords_code:
  assumes "verifyRequest l (Header req) (map_option (Marshal_GetRecords l) (Body req)) = Inr pid"
    and "Body req = Some body"
    and "checkServiceKey n (gr_ThreadID body) (gr_ServiceKey body) \<noteq> None"
  shows "status_Code (snd (fst (GetRecords n l req)))
           = status_Code (checkServiceKey n (gr_ThreadID body) (gr_ServiceKey body))"
  using assms GetRecords_check_fails [OF assms(1,2)] by auto

text \<open>
  Claim C3 as stated fails: a verified \<open>GetLogs\<close> that carries no key, for a thread whose
  service key the store does not know, is refused as \<open>Unauthenticated\<close>, not \<open>NotFound\<close>:
  the check turns a missing key away before it asks the store.
\<close>

theorem no_local_key_not_always_NotFound:
  "\<not> (ServiceKey (store netNoKey) (gl_ThreadID getLogsBodyNoKey) = Inr None
       \<longrightarrow> status_Code (snd (fst (GetLogs netNoKey libs0 getLogsReqNoKey))) = NotFound)"
proof -
  have v: "verifyRequest libs0 (Header getLogsReqNoKey)
      (map_option (Marshal_GetLogs libs0) (Body getLogsReqNoKey)) = Inr ''P''"
    by (simp add: verifyRequest_def libs0_def getLogsReqNoKey_def)
  have b: "Body getLogsReqNoKey = Some getLogsBodyNoKey"
    by (simp add: getLogsReqNoKey_def)
  have c: "checkServiceKey netNoKey (gl_ThreadID getLogsBodyNoKey) (gl_ServiceKey getLogsBodyNoKey)
      = Some (Status Unauthenticated (Lit ''a service-key is required to get logs''))"
    by (simp add: checkServiceKey_def supplied_def getLogsBodyNoKey_def)
  have s: "ServiceKey (store netNoKey) (gl_ThreadID getLogsBodyNoKey) = Inr None"
    by (simp add: netNoKey_def)
  from GetLogs_check_fails [OF v b c] s show ?thesis by simp
qed

text \<open>
  Claim C3, amended. The check succeeds iff the request supplies a key, the store holds a
  service key for the thread, and the two are equal byte for byte. A verified \<open>GetLogs\<close> or
  \<open>GetRecords\<close> that supplies no key fails \<open>Unauthenticated\<close>, whatever the store holds; one
  that supplies a key fails \<open>NotFound\<close> when the store holds no service key for the thread
  and \<open>Unauthenticated\<close> when the stored key differs from the supplied one.
\<close>

theorem service_key_check_outcomes:
  assumes "verifyRequest l (Header reqL) (map_option (Marshal_GetLogs l) (Body reqL)) = Inr pidL"
    and "Body reqL = Some bodyL"
    and "verifyRequest l (Header reqR) (map_option (Marshal_GetRecords l) (Body reqR)) = Inr pidR"
    and "Body reqR = Some bodyR"
  shows "(\<forall>tid k. (checkServiceKey n tid k = None)
            = (\<exists>sk. supplied k = Some sk \<and> ServiceKey (store n) tid = Inr (Some sk)))
    \<and> (supplied (gl_ServiceKey bodyL) = None
         \<longrightarrow> status_Code (snd (fst (GetLogs n l reqL))) = Unauthenticated)
    \<and> (supplied (gl_ServiceKey bodyL) \<noteq> None \<and> ServiceKey (store n) (gl_ThreadID bodyL) = Inr None
         \<longrightarrow> status_Code (snd (fst (GetLogs n l reqL))) = NotFound)
    \<and> (\<forall>key sk. supplied (gl_ServiceKey bodyL) = Some key
           \<and> ServiceKey (store n) (gl_ThreadID bodyL) = Inr (Some sk) \<and> key \<noteq> sk
         \<longrightarrow> status_Code (snd (fst (GetLogs n l reqL))) = Unauthenticated)
    \<and> (supplied (gr_ServiceKey bodyR) = None
         \<longrightarrow> status_Code (snd (fst (GetRecords n l reqR))) = Unauthenticated)
    \<and> (supplied (gr_ServiceKey bodyR) \<noteq> None \<and> ServiceKey (store n) (gr_ThreadID bodyR) = Inr None
         \<longrightarrow> status_Code (snd (fst (GetRecords n l reqR))) = NotFound)
    \<and> (\<forall>key sk. supplied (gr_ServiceKey bodyR) = Some key
           \<and> ServiceKey (store n) (gr_ThreadID bodyR) = Inr (Some sk) \<and> key \<noteq> sk
         \<longrightarrow> status_Code (snd (fst (GetRecords n l reqR))) = Unauthenticated)"
proof -
  have L: "status_Code (snd (fst (GetLogs n l reqL))) = c"
    if "status_Code (checkServiceKey n (gl_ThreadID bodyL) (gl_ServiceKey bodyL)) = c"
      and "c \<noteq> OK" for c
  proof -
    from that have "checkServiceKey n (gl_ThreadID bodyL) (gl_ServiceKey bodyL) \<noteq> None"
      by (metis status_Code.simps(1))
    from GetLogs_code [OF assms(1,2) this] that(1) show ?thesis by simp
  qed
  have R: "status_Code (snd (fst (GetRecords n l reqR))) = c"
    if "status_Code (checkServiceKey n (gr_ThreadID bodyR) (gr_ServiceKey bodyR)) = c"
      and "c \<noteq> OK" for c
  proof -
    from that have "checkServiceKey n (gr_ThreadID bodyR) (gr_ServiceKey bodyR) \<noteq> None"
      by (metis status_Code.simps(1))
    from GetRecords_code [OF assms(3,4) this] that(1) show ?thesis by simp
  qed
  have 1: "\<forall>tid k. (checkServiceKey n tid k = None)
            = (\<exists>sk. supplied k = Some sk \<and> ServiceKey (store n) tid = Inr (Some sk))"
    by (simp add: checkServiceKey_None_iff)
  have 2: "supplied (gl_ServiceKey bodyL) = None
         \<longrightarrow> status_Code (snd (fst (GetLogs n l reqL))) = Unauthenticated"
    by (auto intro!: L simp: checkServiceKey_code)
  have 3: "supplied (gl_ServiceKey bodyL) \<noteq> None \<and> ServiceKey (store n) (gl_ThreadID bodyL) = Inr None
         \<longrightarrow> status_Code (snd (fst (GetLogs n l reqL))) = NotFound"
    by (auto intro!: L simp: checkServiceKey_code)
  have 4: "\<forall>key sk. supplied (gl_ServiceKey bodyL) = Some key
           \<and> ServiceKey (store n) (gl_ThreadID bodyL) = Inr (Some sk) \<and> key \<noteq> sk
         \<longrightarrow> status_Code (snd (fst (GetLogs n l reqL))) = Unauthenticated"
    by (auto intro!: L simp: checkServiceKey_code)
  have 5: "supplied (gr_ServiceKey bodyR) = None
         \<longrightarrow> status_Code (snd (fst (GetRecords n l reqR))) = Unauthenticated"
    by (auto intro!: R simp: checkServiceKey_code)
  have 6: "supplied (gr_ServiceKey bodyR) \<noteq> None \<and> ServiceKey (store n) (gr_ThreadID bodyR) = Inr None
         \<longrightarrow> status_Code (snd (fst (GetRecords n l reqR))) = NotFound"
    by (auto intro!: R simp: checkServiceKey_code)
  have 7: "\<forall>key sk. supplied (gr_ServiceKey bodyR) = Some key
           \<and> ServiceKey (store n) (gr_ThreadID bodyR) = Inr (Some sk) \<and> key \<noteq> sk
         \<longrightarrow> status_Code (snd (fst (GetRecords n l reqR))) = Unauthenticated"
    by (auto intro!: R simp: checkServiceKey_code)
  from 1 2 3 4 5 6 7 show ?thesis by blast
qed

theorem service_key_check_outcomes_witness:
  "verifyRequest libs0 (Header getLogsReqWrong)
      (map_option (Marshal_GetLogs libs0) (Body getLogsReqWrong)) = Inr ''P''
   \<and> verifyRequest libs0 (Header getRecordsReq0)
      (map_option (Marshal_GetRecords libs0) (Body getRecordsReq0)) = Inr ''P''
   \<and> supplied (gl_ServiceKey getLogsBodyWrong) = Some [2]
   \<and> ServiceKey (store net0) (gl_ThreadID getLogsBodyWrong) = Inr (Some [1])
   \<and> status_Code (snd (fst (GetLogs net0 libs0 getLogsReqWrong))) = Unauthenticated
   \<and> supplied (gr_ServiceKey getRecordsBody0) = Some [1]
   \<and> ServiceKey (store netNoKey) (gr_ThreadID getRecordsBody0) = Inr None
   \<and> status_Code (snd (fst (GetRecords netNoKey libs0 getRecordsReq0))) = NotFound"
proof -
  have vL: "verifyRequest libs0 (Header getLogsReqWrong)
      (map_option (Marshal_GetLogs libs0) (Body getLogsReqWrong)) = Inr ''P''"
    by (simp add: verifyRequest_def libs0_def getLogsReqWrong_def)
  have bL: "Body getLogsReqWrong = Some getLogsBodyWrong"
    by (simp add: getLogsReqWrong_def)
  have vR: "verifyRequest libs0 (Header getRecordsReq0)
      (map_option (Marshal_GetRecords libs0) (Body getRecordsReq0)) = Inr ''P''"
    by (simp add: verifyRequest_def libs0_def getRecordsReq0_def)
  have bR: "Body getRecordsReq0 = Some getRecordsBody0"
    by (simp add: getRecordsReq0_def)
  have k: "supplied (gl_ServiceKey getLogsBodyWrong) = Some [2]"
    "supplied (gr_ServiceKey getRecordsBody0) = Some [1]"
    by (simp_all add: supplied_def getLogsBodyWrong_def getRecordsBody0_def)
  have s: "ServiceKey (store net0) (gl_ThreadID getLogsBodyWrong) = Inr (Some [1])"
    "ServiceKey (store netNoKey) (gr_ThreadID getRecordsBody0) = Inr None"
    by (simp_all add: net0_def store0_def netNoKey_def)
  from service_key_check_outcomes [OF vL bL vR bR, of net0] k s
  have 1: "status_Code (snd (fst (GetLogs net0 libs0 getLogsReqWrong))) = Unauthenticated"
    by simp
  from service_key_check_outcomes [OF vL bL vR bR, of netNoKey] k s
  have 2: "status_Code (snd (fst (GetRecords netNoKey libs0 getRecordsReq0))) = NotFound"
    by simp
  from vL vR k s 1 2 show ?thesis by simp
qed

section \<open>GetRecords\<close>

lemma GetRecords_checked:
  assumes "verifyRequest l (Header req) (map_option (Marshal_GetRecords l) (Body req)) = Inr pid"
    and "Body req = Some body"
    and "checkServiceKey n (gr_ThreadID body) (gr_ServiceKey body) = None"
  shows "GetRecords n l req =
     (case headsChanged n l body of
        Inl err \<Rightarrow> ((None, Some (Plain err)), [])
      | Inr False \<Rightarrow> ((Some \<lparr>reply_Logs = []\<rparr>, None), [])
      | Inr True \<Rightarrow>
         (case GetThread (store n) (gr_ThreadID body) of
            (info, Some err) \<Rightarrow> ((None, Some (Plain err)), [])
          | (info, None) \<Rightarrow>
              if length (Logs info) = 0 then ((Some \<lparr>reply_Logs = []\<rparr>, None), [])
              else
                ((Some \<lparr>reply_Logs = List.map_filter fst (fanOut n l pid body info)\<rparr>, None),
                 concat (map (\<lambda>t. snd (snd t)) (fanOut n l pid body info)) @
                 (if tStat n \<and> sum_list (map (\<lambda>t. fst (snd t)) (fanOut n l pid body info)) = 0
                  then [Apply pid (gr_ThreadID body) threadStatusUploadDone] else []))))"
  using assms
  by (simp add: GetRecords_def Let_def split: sum.splits bool.splits prod.splits option.splits)

lemma GetRecords_slow_path:
  assumes "verifyRequest l (Header req) (map_option (Marshal_GetRecords l) (Body req)) = Inr pid"
    and "Body req = Some body"
    and "checkServiceKey n (gr_ThreadID body) (gr_ServiceKey body) = None"
    and "headsChanged n l body = Inr True"
    and "GetThread (store n) (gr_ThreadID body) = (info, None)"
    and "Logs info \<noteq> []"
  shows "GetRecords n l req =
     ((Some \<lparr>reply_Logs = List.map_filter fst (fanOut n l pid body info)\<rparr>, None),
      concat (map (\<lambda>t. snd (snd t)) (fanOut n l pid body info)) @
      (if tStat n \<and> sum_list (map (\<lambda>t. fst (snd t)) (fanOut n l pid body info)) = 0
       then [Apply pid (gr_ThreadID body) threadStatusUploadDone] else []))"
  using assms(4,5,6) by (simp add: GetRecords_checked [OF assms(1,2,3)])



lemma fetchTask_events:
  "snd (snd (fetchTask n l pid tid lid (off, lim, pblg))) =
     Call_getLocalRecords tid lid off lim #
     (if snd (getLocalRecords n tid lid off lim) = Some ErrOffsetIsMissing
      then [Schedule queueGetRecords pid tid callPriorityHigh updateRecordsFromPeer] else [])"
  by (simp add: fetchTask_def Let_def split: prod.splits)

lemma fanOut_events:
  "concat (map (\<lambda>t. snd (snd t)) (fanOut n l pid body info)) =
     concat (map (\<lambda>lg.
        case fetchArgs (reqd_of (gr_Logs body)) (MaxPullLimit n sdiv int (length (Logs info))) lg of
          (off, lim, pblg) \<Rightarrow>
            Call_getLocalRecords (gr_ThreadID body) (ID lg) off lim #
            (if snd (fetched n body info lg) = Some ErrOffsetIsMissing
             then [Schedule queueGetRecords pid (gr_ThreadID body) callPriorityHigh
                     updateRecordsFromPeer]
             else [])) (Logs info))"
proof -
  have "snd (snd (fetchTask n l pid (gr_ThreadID body) (ID lg)
            (fetchArgs (reqd_of (gr_Logs body)) (MaxPullLimit n sdiv int (length (Logs info))) lg)))
      = (case fetchArgs (reqd_of (gr_Logs body)) (MaxPullLimit n sdiv int (length (Logs info))) lg of
          (off, lim, pblg) \<Rightarrow>
            Call_getLocalRecords (gr_ThreadID body) (ID lg) off lim #
            (if snd (fetched n body info lg) = Some ErrOffsetIsMissing
             then [Schedule queueGetRecords pid (gr_ThreadID body) callPriorityHigh
                     updateRecordsFromPeer]
             else []))" for lg
    by (cases "fetchArgs (reqd_of (gr_Logs body)) (MaxPullLimit n sdiv int (length (Logs info))) lg")
      (simp add: fetchTask_events fetched_def)
  then show ?thesis
    by (simp add: fanOut_def Let_def comp_def)
qed

lemma fanOut_fetches_every_log:
  assumes "lg \<in> set (Logs info)"
    and "fetchArgs (reqd_of (gr_Logs body)) (MaxPullLimit n sdiv int (length (Logs info))) lg
           = (off, lim, pblg)"
  shows "Call_getLocalRecords (gr_ThreadID body) (ID lg) off lim
           \<in> set (concat (map (\<lambda>t. snd (snd t)) (fanOut n l pid body info)))"
  unfolding fanOut_events using assms by (auto intro!: bexI [of _ lg])




section \<open>PushLog\<close>

lemma pickUpKeys_cases:
  "pickUpKeys n body info =
     (if \<not> Defined (Key info) then
        (case supplied (pl_ServiceKey body) of
           None \<Rightarrow> (Some (Status NotFound (ErrorOf ErrThreadNotFound)), [])
         | Some k \<Rightarrow>
             (map_option (\<lambda>err. Status Internal (ErrorOf err))
                (AddServiceKey (store n) (pl_ThreadID body) k),
              [Call_AddServiceKey (pl_ThreadID body) k]))
      else if \<not> CanRead (Key info) then
        (case supplied (pl_ReadKey body) of
           None \<Rightarrow> (None, [])
         | Some k \<Rightarrow>
             (map_option (\<lambda>err. Status Internal (ErrorOf err))
                (AddReadKey (store n) (pl_ThreadID body) k),
              [Call_AddReadKey (pl_ThreadID body) k]))
      else (None, []))"
  by (simp add: pickUpKeys_def Let_def split: option.splits)

lemma PushLog_after_read:
  assumes "verifyRequest l (Header req) (map_option (Marshal_PushLog l) (Body req)) = Inr pid"
    and "Body req = Some body"
    and "GetThread (store n) (pl_ThreadID body) = (info, gerr)"
    and "\<forall>e. gerr = Some e \<longrightarrow> errors_Is e ErrThreadNotFound"
  shows "PushLog n l req =
     (case fst (pickUpKeys n body info) of
        Some kerr \<Rightarrow> ((None, Some kerr), snd (pickUpKeys n body info))
      | None \<Rightarrow>
         (case createExternalLogsIfNotExist n (pl_ThreadID body) [logFromProto (pl_Log body)] of
            Some cerr \<Rightarrow>
              ((None, Some (Status Internal (ErrorOf cerr))),
               snd (pickUpKeys n body info) @
               [Call_createExternalLogsIfNotExist (pl_ThreadID body) [logFromProto (pl_Log body)]])
          | None \<Rightarrow>
              ((Some (), None),
               snd (pickUpKeys n body info) @
               [Call_createExternalLogsIfNotExist (pl_ThreadID body) [logFromProto (pl_Log body)],
                Schedule queueGetRecords pid (pl_ThreadID body) callPriorityLow
                  updateRecordsFromPeer])))"
proof -
  obtain kerr kevs where pk: "pickUpKeys n body info = (kerr, kevs)"
    by (cases "pickUpKeys n body info")
  from assms(4) have ok: "\<not> (case gerr of None \<Rightarrow> False | Some e \<Rightarrow> \<not> errors_Is e ErrThreadNotFound)"
    by (cases gerr) simp_all
  show ?thesis
    using assms(1,2,3) ok pk
    by (simp add: PushLog_def Let_def split: option.splits)
qed

text \<open>
  Claim C5. Take a verified push of a log whose thread the store could read or reports as
  not found. The supplied service key is written to the store iff the thread has no service
  key; the supplied read key is written iff the thread has a service key but cannot be
  read. When the thread has no service key and none is supplied, the call fails \<open>NotFound\<close>
  with no event. Otherwise, once the key write (if any) succeeded, the log of the request is
  handed to \<open>createExternalLogsIfNotExist\<close>, and when that succeeds the last event is the
  low-priority schedule of \<open>updateRecordsFromPeer\<close> for the caller and the thread on the
  records queue, and the reply is the empty one.
\<close>

theorem PushLog_key_uptake_and_schedule:
  assumes "verifyRequest l (Header req) (map_option (Marshal_PushLog l) (Body req)) = Inr pid"
    and "Body req = Some body"
    and "GetThread (store n) (pl_ThreadID body) = (info, gerr)"
    and "\<forall>e. gerr = Some e \<longrightarrow> errors_Is e ErrThreadNotFound"
  shows "(\<forall>t k. (Call_AddServiceKey t k \<in> set (snd (PushLog n l req)))
            = (t = pl_ThreadID body \<and> \<not> Defined (Key info)
               \<and> supplied (pl_ServiceKey body) = Some k))
    \<and> (\<forall>t k. (Call_AddReadKey t k \<in> set (snd (PushLog n l req)))
            = (t = pl_ThreadID body \<and> Defined (Key info) \<and> \<not> CanRead (Key info)
               \<and> supplied (pl_ReadKey body) = Some k))
    \<and> (\<not> Defined (Key info) \<and> supplied (pl_ServiceKey body) = None
         \<longrightarrow> PushLog n l req = ((None, Some (Status NotFound (ErrorOf ErrThreadNotFound))), []))
    \<and> ((Defined (Key info) \<or> supplied (pl_ServiceKey body) \<noteq> None)
        \<and> (\<forall>k. \<not> Defined (Key info) \<and> supplied (pl_ServiceKey body) = Some k
               \<longrightarrow> AddServiceKey (store n) (pl_ThreadID body) k = None)
        \<and> (\<forall>k. Defined (Key info) \<and> \<not> CanRead (Key info) \<and> supplied (pl_ReadKey body) = Some k
               \<longrightarrow> AddReadKey (store n) (pl_ThreadID body) k = None)
         \<longrightarrow> Call_createExternalLogsIfNotExist (pl_ThreadID body) [logFromProto (pl_Log body)]
               \<in> set (snd (PushLog n l req))
             \<and> (createExternalLogsIfNotExist n (pl_ThreadID body) [logFromProto (pl_Log body)]
                  = None
                \<longrightarrow> fst (PushLog n l req) = (Some (), None)
                    \<and> (\<exists>kevs. snd (PushLog n l req) =
                          kevs @
                          [Call_createExternalLogsIfNotExist (pl_ThreadID body)
                             [logFromProto (pl_Log body)],
                           Schedule queueGetRecords pid (pl_ThreadID body) callPriorityLow
                             updateRecordsFromPeer])))"
proof -
  note run = PushLog_after_read [OF assms]
  have 1: "(Call_AddServiceKey t k \<in> set (snd (PushLog n l req)))
            = (t = pl_ThreadID body \<and> \<not> Defined (Key info)
               \<and> supplied (pl_ServiceKey body) = Some k)" for t k
    by (auto simp: run pickUpKeys_cases split: option.splits)
  have 2: "(Call_AddReadKey t k \<in> set (snd (PushLog n l req)))
            = (t = pl_ThreadID body \<and> Defined (Key info) \<and> \<not> CanRead (Key info)
               \<and> supplied (pl_ReadKey body) = Some k)" for t k
    by (auto simp: run pickUpKeys_cases split: option.splits)
  have 3: "PushLog n l req = ((None, Some (Status NotFound (ErrorOf ErrThreadNotFound))), [])"
    if "\<not> Defined (Key info)" "supplied (pl_ServiceKey body) = None"
    using that by (simp add: run pickUpKeys_cases)
  have 4: "Call_createExternalLogsIfNotExist (pl_ThreadID body) [logFromProto (pl_Log body)]
               \<in> set (snd (PushLog n l req))
             \<and> (createExternalLogsIfNotExist n (pl_ThreadID body) [logFromProto (pl_Log body)]
                  = None
                \<longrightarrow> fst (PushLog n l req) = (Some (), None)
                    \<and> (\<exists>kevs. snd (PushLog n l req) =
                          kevs @
                          [Call_createExternalLogsIfNotExist (pl_ThreadID body)
                             [logFromProto (pl_Log body)],
                           Schedule queueGetRecords pid (pl_ThreadID body) callPriorityLow
                             updateRecordsFromPeer]))"
    if a: "Defined (Key info) \<or> supplied (pl_ServiceKey body) \<noteq> None"
      and b: "\<forall>k. \<not> Defined (Key info) \<and> supplied (pl_ServiceKey body) = Some k
               \<longrightarrow> AddServiceKey (store n) (pl_ThreadID body) k = None"
      and c: "\<forall>k. Defined (Key info) \<and> \<not> CanRead (Key info) \<and> supplied (pl_ReadKey body) = Some k
               \<longrightarrow> AddReadKey (store n) (pl_ThreadID body) k = None"
  proof -
    from a b c have ok: "fst (pickUpKeys n body info) = None"
      by (auto simp: pickUpKeys_cases split: option.splits)
    show ?thesis
      by (simp add: run ok split: option.splits)
  qed
  from 1 2 3 4 show ?thesis by blast
qed

theorem PushLog_key_uptake_and_schedule_witness:
  "verifyRequest libs0 (Header pushLogReq0)
      (map_option (Marshal_PushLog libs0) (Body pushLogReq0)) = Inr ''P''
   \<and> errors_Is ErrThreadNotFound ErrThreadNotFound
   \<and> PushLog netNoThread libs0 pushLogReq0 =
       ((Some (), None),
        [Call_AddServiceKey ''T'' [1],
         Call_createExternalLogsIfNotExist ''T'' [log1],
         Schedule queueGetRecords ''P'' ''T'' callPriorityLow updateRecordsFromPeer])
   \<and> PushLog net0 libs0 pushLogReq0 =
       ((Some (), None),
        [Call_AddReadKey ''T'' [2],
         Call_createExternalLogsIfNotExist ''T'' [log1],
         Schedule queueGetRecords ''P'' ''T'' callPriorityLow updateRecordsFromPeer])"
proof -
  have v: "verifyRequest libs0 (Header pushLogReq0)
      (map_option (Marshal_PushLog libs0) (Body pushLogReq0)) = Inr ''P''"
    by (simp add: verifyRequest_def libs0_def pushLogReq0_def)
  have b: "Body pushLogReq0 = Some pushLogBody0"
    by (simp add: pushLogReq0_def)
  have g1: "GetThread (store netNoThread) (pl_ThreadID pushLogBody0)
      = (\<lparr>Key = \<lparr>service = None, read = None\<rparr>, Logs = []\<rparr>, Some ErrThreadNotFound)"
    by (simp add: netNoThread_def)
  have g2: "GetThread (store net0) (pl_ThreadID pushLogBody0)
      = (\<lparr>Key = \<lparr>service = Some [1], read = None\<rparr>, Logs = [log1]\<rparr>, None)"
    by (simp add: net0_def store0_def)
  have e1: "\<forall>e. Some ErrThreadNotFound = Some e \<longrightarrow> errors_Is e ErrThreadNotFound"
    by simp
  have e2: "\<forall>e. (None :: go_error option) = Some e \<longrightarrow> errors_Is e ErrThreadNotFound"
    by simp
  have r1: "PushLog netNoThread libs0 pushLogReq0 =
       ((Some (), None),
        [Call_AddServiceKey ''T'' [1],
         Call_createExternalLogsIfNotExist ''T'' [log1],
         Schedule queueGetRecords ''P'' ''T'' callPriorityLow updateRecordsFromPeer])"
    by (subst PushLog_after_read [OF v b g1 e1])
      (simp add: pickUpKeys_cases Defined_def supplied_def
        pushLogBody0_def netNoThread_def net0_def store0_def logFromProto_def logToProto_def
        log1_def)
  have r2: "PushLog net0 libs0 pushLogReq0 =
       ((Some (), None),
        [Call_AddReadKey ''T'' [2],
         Call_createExternalLogsIfNotExist ''T'' [log1],
         Schedule queueGetRecords ''P'' ''T'' callPriorityLow updateRecordsFromPeer])"
    by (subst PushLog_after_read [OF v b g2 e2])
      (simp add: pickUpKeys_cases Defined_def CanRead_def
        supplied_def pushLogBody0_def net0_def store0_def logFromProto_def logToProto_def
        log1_def)
  from PushLog_key_uptake_and_schedule [OF v b g1 e1] v r1 r2 show ?thesis
    by simp
qed

subsection \<open>The per-log tasks\<close>

lemma convertRecords_ok:
  "\<not> list_ex (\<lambda>r. isl (RecordToProto l r)) recs
   \<Longrightarrow> convertRecords l recs = (map (\<lambda>r. projr (RecordToProto l r)) recs, 0)"
  by (induction recs) (auto split: sum.splits)

lemma convertRecords_failures:
  "snd (convertRecords l recs) = (if list_ex (\<lambda>r. isl (RecordToProto l r)) recs then 1 else 0)"
  by (induction recs) (auto split: sum.splits prod.splits)

lemma fetchTask_failures:
  "fst (snd (fetchTask n l pid tid lid (off, lim, pblg))) =
     (if snd (getLocalRecords n tid lid off lim) \<noteq> None then 1 else 0) +
     snd (convertRecords l (fst (getLocalRecords n tid lid off lim)))"
  by (simp add: fetchTask_def Let_def split: prod.splits)

lemma fetchTask_entry:
  "fst (fetchTask n l pid tid lid (off, lim, pblg)) =
     (if pblg = None \<and> fst (convertRecords l (fst (getLocalRecords n tid lid off lim))) = []
      then None
      else Some \<lparr>re_LogID = lid,
                 re_Records = fst (convertRecords l (fst (getLocalRecords n tid lid off lim))),
                 re_Log = pblg\<rparr>)"
  by (simp add: fetchTask_def Let_def split: prod.splits)

lemma fanOut_failures:
  "map (\<lambda>t. fst (snd t)) (fanOut n l pid body info) =
     map (\<lambda>lg. word_of_nat (taskFailures n l body info lg)) (Logs info)"
proof -
  have "fst (snd (fetchTask n l pid (gr_ThreadID body) (ID lg)
            (fetchArgs (reqd_of (gr_Logs body)) (MaxPullLimit n sdiv int (length (Logs info))) lg)))
      = word_of_nat (taskFailures n l body info lg)" for lg
    by (cases "fetchArgs (reqd_of (gr_Logs body)) (MaxPullLimit n sdiv int (length (Logs info))) lg")
      (simp add: fetchTask_failures convertRecords_failures taskFailures_def fetched_def)
  then show ?thesis
    by (simp add: fanOut_def Let_def)
qed

lemma sum_list_word_of_nat:
  "sum_list (map (\<lambda>x. word_of_nat (g x)) xs) = (word_of_nat (sum_list (map g xs)) :: 32 word)"
  by (induction xs) simp_all

lemma sum_list_bounded:
  "(\<And>x. g x \<le> (2::nat)) \<Longrightarrow> sum_list (map g xs) \<le> 2 * length xs"
proof (induction xs)
  case Nil
  then show ?case by simp
next
  case (Cons x xs)
  from Cons.prems have "g x \<le> 2" .
  with Cons.IH [OF Cons.prems] show ?case by simp
qed

lemma taskFailures_le: "taskFailures n l body info lg \<le> 2"
  by (simp add: taskFailures_def)

lemma taskFailures_zero: "(taskFailures n l body info lg = 0) = (\<not> taskFailed n l body info lg)"
  by (simp add: taskFailures_def taskFailed_def)

text \<open>The counter after the join is the number of raises, and it is zero only when no
  task raised it, as long as the raises fit its 32 bits.\<close>

lemma failures_counter:
  "sum_list (map (\<lambda>t. fst (snd t)) (fanOut n l pid body info)) =
     (word_of_nat (sum_list (map (taskFailures n l body info) (Logs info))) :: 32 word)"
  by (simp add: fanOut_failures sum_list_word_of_nat)

lemma failures_zero_iff:
  assumes "2 * length (Logs info) < 2 ^ 32"
  shows "(sum_list (map (\<lambda>t. fst (snd t)) (fanOut n l pid body info)) = 0)
           = (\<forall>lg \<in> set (Logs info). \<not> taskFailed n l body info lg)"
proof -
  define N where "N = sum_list (map (taskFailures n l body info) (Logs info))"
  have "N \<le> 2 * length (Logs info)"
    unfolding N_def by (rule sum_list_bounded) (rule taskFailures_le)
  with assms have small: "N < 2 ^ 32" by simp
  have "((word_of_nat N :: 32 word) = 0) = (N = 0)"
  proof
    assume "(word_of_nat N :: 32 word) = 0"
    then have "(2::nat) ^ 32 dvd N"
      by (simp add: word_of_nat_eq_0_iff)
    with small show "N = 0"
      by (meson dvd_imp_le not_less zero_less_iff_neq_zero)
  next
    assume "N = 0"
    then show "(word_of_nat N :: 32 word) = 0" by simp
  qed
  also have "(N = 0) = (\<forall>lg \<in> set (Logs info). \<not> taskFailed n l body info lg)"
    unfolding N_def by (simp add: taskFailures_zero)
  finally show ?thesis
    unfolding N_def by (simp add: failures_counter)
qed

lemma set_map_filter:
  "set (List.map_filter f xs) = {y. \<exists>x \<in> set xs. f x = Some y}"
  by (induction xs) (auto split: option.splits)

lemma fanOut_entries:
  "set (List.map_filter fst (fanOut n l pid body info)) =
     {e. \<exists>lg \<in> set (Logs info).
           fst (fetchTask n l pid (gr_ThreadID body) (ID lg)
                  (fetchArgs (reqd_of (gr_Logs body))
                     (MaxPullLimit n sdiv int (length (Logs info))) lg)) = Some e}"
  by (auto simp: set_map_filter fanOut_def Let_def)

text \<open>The map \<open>reqd\<close> holds, for a log, the last request entry that names it.\<close>

lemma find_snoc:
  "find P (xs @ [x]) = (case find P xs of Some y \<Rightarrow> Some y | None \<Rightarrow> if P x then Some x else None)"
  by (induction xs) simp_all

lemma fold_reqd:
  "fold (\<lambda>e m. m(LogID e \<mapsto> e)) logs m0 i =
     (case find (\<lambda>e. LogID e = i) (rev logs) of Some e \<Rightarrow> Some e | None \<Rightarrow> m0 i)"
  by (induction logs arbitrary: m0) (auto simp: find_snoc split: option.splits)

lemma reqd_of_find: "reqd_of logs i = find (\<lambda>e. LogID e = i) (rev logs)"
  by (simp add: reqd_of_def fold_reqd split: option.splits)

lemma reqd_of_None: "(reqd_of logs i = None) = (i \<notin> LogID ` set logs)"
  by (auto simp: reqd_of_find find_None_iff)

lemma fetchArgs_descriptor:
  "snd (snd (fetchArgs (reqd_of logs) k lg)) =
     (if ID lg \<in> LogID ` set logs then None else Some (logToProto lg))"
  using reqd_of_None [of logs "ID lg"]
  by (auto simp: fetchArgs_def split: option.splits)

lemma task_entry:
  "fst (fetchTask n l pid (gr_ThreadID body) (ID lg)
          (fetchArgs (reqd_of (gr_Logs body)) (MaxPullLimit n sdiv int (length (Logs info))) lg)) =
     (if ID lg \<in> LogID ` set (gr_Logs body)
         \<and> fst (convertRecords l (fst (fetched n body info lg))) = []
      then None
      else Some \<lparr>re_LogID = ID lg,
                 re_Records = fst (convertRecords l (fst (fetched n body info lg))),
                 re_Log = (if ID lg \<in> LogID ` set (gr_Logs body) then None
                           else Some (logToProto lg))\<rparr>)"
proof -
  obtain off lim pblg where fa:
    "fetchArgs (reqd_of (gr_Logs body)) (MaxPullLimit n sdiv int (length (Logs info))) lg
       = (off, lim, pblg)"
    by (metis prod_cases3)
  with fetchArgs_descriptor [of "gr_Logs body" "MaxPullLimit n sdiv int (length (Logs info))" lg]
  have d: "pblg = (if ID lg \<in> LogID ` set (gr_Logs body) then None else Some (logToProto lg))"
    by simp
  from fa have f: "fetched n body info lg = getLocalRecords n (gr_ThreadID body) (ID lg) off lim"
    by (simp add: fetched_def)
  show ?thesis
    by (simp add: fa fetchTask_entry d f)
qed

lemma fanOut_schedules_high:
  "(Schedule queueGetRecords pid (gr_ThreadID body) callPriorityHigh updateRecordsFromPeer
      \<in> set (concat (map (\<lambda>t. snd (snd t)) (fanOut n l pid body info))))
     = (\<exists>lg \<in> set (Logs info). snd (fetched n body info lg) = Some ErrOffsetIsMissing)"
  unfolding fanOut_events by (auto simp: case_prod_beta split: if_splits)

lemma fanOut_no_status:
  "Apply p t st \<notin> set (concat (map (\<lambda>t. snd (snd t)) (fanOut n l pid body info)))"
  unfolding fanOut_events by (auto simp: case_prod_beta split: if_splits)

text \<open>
  Claim C7. Take a verified request that passed the service-key check, for which the heads
  changed and the thread was read with at least one log, so that the per-log tasks run;
  let the thread have fewer than \<open>2^31\<close> logs, so that the 32-bit counter cannot wrap.
  The counter after the join is the number of fetch failures plus the number of tasks whose
  conversion loop met a record that does not convert. \<open>UploadDone\<close> for the caller and the
  thread is emitted iff the registry is present and no task failed. Whatever happens to the
  other logs, a log whose task did not fail and that has records or a descriptor to report
  has its entry in the reply, with all its records in wire form. A high-priority
  \<open>updateRecordsFromPeer\<close> for the caller and the thread is scheduled on the records queue iff
  some fetch fails with the missing-offset error.
\<close>

theorem GetRecords_failures_and_upload_done:
  assumes "verifyRequest l (Header req) (map_option (Marshal_GetRecords l) (Body req)) = Inr pid"
    and "Body req = Some body"
    and "checkServiceKey n (gr_ThreadID body) (gr_ServiceKey body) = None"
    and "headsChanged n l body = Inr True"
    and "GetThread (store n) (gr_ThreadID body) = (info, None)"
    and "Logs info \<noteq> []"
    and "2 * length (Logs info) < 2 ^ 32"
  shows "(\<exists>reply. fst (GetRecords n l req) = (Some reply, None)
           \<and> (\<forall>lg \<in> set (Logs info).
                 \<not> taskFailed n l body info lg
                 \<and> (fst (fetched n body info lg) \<noteq> [] \<or> ID lg \<notin> LogID ` set (gr_Logs body))
                 \<longrightarrow> \<lparr>re_LogID = ID lg,
                      re_Records = map (\<lambda>r. projr (RecordToProto l r)) (fst (fetched n body info lg)),
                      re_Log = (if ID lg \<in> LogID ` set (gr_Logs body) then None
                                else Some (logToProto lg))\<rparr>
                     \<in> set (reply_Logs reply)))
    \<and> sum_list (map (\<lambda>t. fst (snd t)) (fanOut n l pid body info)) =
        (word_of_nat (sum_list (map (taskFailures n l body info) (Logs info))) :: 32 word)
    \<and> (Apply pid (gr_ThreadID body) threadStatusUploadDone \<in> set (snd (GetRecords n l req)))
        = (tStat n \<and> (\<forall>lg \<in> set (Logs info). \<not> taskFailed n l body info lg))
    \<and> (Schedule queueGetRecords pid (gr_ThreadID body) callPriorityHigh updateRecordsFromPeer
          \<in> set (snd (GetRecords n l req)))
        = (\<exists>lg \<in> set (Logs info). snd (fetched n body info lg) = Some ErrOffsetIsMissing)"
proof -
  note run = GetRecords_slow_path [OF assms(1-6)]
  note zero = failures_zero_iff [OF assms(7), of n l pid body]
  have entry: "\<lparr>re_LogID = ID lg,
                   re_Records = map (\<lambda>r. projr (RecordToProto l r)) (fst (fetched n body info lg)),
                   re_Log = (if ID lg \<in> LogID ` set (gr_Logs body) then None
                             else Some (logToProto lg))\<rparr>
                 \<in> set (List.map_filter fst (fanOut n l pid body info))"
    if "lg \<in> set (Logs info)" "\<not> taskFailed n l body info lg"
      "fst (fetched n body info lg) \<noteq> [] \<or> ID lg \<notin> LogID ` set (gr_Logs body)" for lg
  proof -
    from that(2) have "\<not> list_ex (\<lambda>r. isl (RecordToProto l r)) (fst (fetched n body info lg))"
      by (simp add: taskFailed_def)
    then have conv: "fst (convertRecords l (fst (fetched n body info lg)))
        = map (\<lambda>r. projr (RecordToProto l r)) (fst (fetched n body info lg))"
      by (simp add: convertRecords_ok)
    from that(3) have "fst (fetchTask n l pid (gr_ThreadID body) (ID lg)
          (fetchArgs (reqd_of (gr_Logs body)) (MaxPullLimit n sdiv int (length (Logs info))) lg))
        = Some \<lparr>re_LogID = ID lg,
                re_Records = map (\<lambda>r. projr (RecordToProto l r)) (fst (fetched n body info lg)),
                re_Log = (if ID lg \<in> LogID ` set (gr_Logs body) then None
                          else Some (logToProto lg))\<rparr>"
      unfolding task_entry conv by auto
    with that(1) show ?thesis
      unfolding fanOut_entries by blast
  qed
  have 1: "\<exists>reply. fst (GetRecords n l req) = (Some reply, None)
           \<and> (\<forall>lg \<in> set (Logs info).
                 \<not> taskFailed n l body info lg
                 \<and> (fst (fetched n body info lg) \<noteq> [] \<or> ID lg \<notin> LogID ` set (gr_Logs body))
                 \<longrightarrow> \<lparr>re_LogID = ID lg,
                      re_Records = map (\<lambda>r. projr (RecordToProto l r)) (fst (fetched n body info lg)),
                      re_Log = (if ID lg \<in> LogID ` set (gr_Logs body) then None
                                else Some (logToProto lg))\<rparr>
                     \<in> set (reply_Logs reply))"
    using entry by (simp add: run)
  have 2: "(Apply pid (gr_ThreadID body) threadStatusUploadDone \<in> set (snd (GetRecords n l req)))
        = (tStat n \<and> (\<forall>lg \<in> set (Logs info). \<not> taskFailed n l body info lg))"
    using fanOut_no_status [of pid "gr_ThreadID body" threadStatusUploadDone n l pid body info]
    by (simp add: run zero)
  have 3: "(Schedule queueGetRecords pid (gr_ThreadID body) callPriorityHigh updateRecordsFromPeer
          \<in> set (snd (GetRecords n l req)))
        = (\<exists>lg \<in> set (Logs info). snd (fetched n body info lg) = Some ErrOffsetIsMissing)"
    using fanOut_schedules_high [of pid body n l info]
    by (simp add: run)
  from 1 2 3 failures_counter [of n l pid body info] show ?thesis
    by blast
qed

theorem GetRecords_failures_and_upload_done_witness:
  "verifyRequest libs0 (Header getRecordsReq0)
      (map_option (Marshal_GetRecords libs0) (Body getRecordsReq0)) = Inr ''P''
   \<and> checkServiceKey netTwo (gr_ThreadID getRecordsBody0) (gr_ServiceKey getRecordsBody0) = None
   \<and> headsChanged netTwo libs0 getRecordsBody0 = Inr True
   \<and> GetThread (store netTwo) (gr_ThreadID getRecordsBody0)
       = (\<lparr>Key = \<lparr>service = Some [1], read = None\<rparr>, Logs = [log1, log2]\<rparr>, None)
   \<and> GetRecords netTwo libs0 getRecordsReq0 =
       ((Some \<lparr>reply_Logs =
           [\<lparr>re_LogID = ''L1'', re_Records = [prec1], re_Log = None\<rparr>,
            \<lparr>re_LogID = ''L2'', re_Records = [], re_Log = Some (logToProto log2)\<rparr>]\<rparr>, None),
        [Call_getLocalRecords ''T'' ''L1'' (Cid ''h1'') 100,
         Call_getLocalRecords ''T'' ''L2'' Undef 5000,
         Schedule queueGetRecords ''P'' ''T'' callPriorityHigh updateRecordsFromPeer])
   \<and> Apply ''P'' ''T'' threadStatusUploadDone \<notin> set (snd (GetRecords netTwo libs0 getRecordsReq0))"
proof -
  let ?info = "\<lparr>Key = \<lparr>service = Some [1], read = None\<rparr>, Logs = [log1, log2]\<rparr>"
  have v: "verifyRequest libs0 (Header getRecordsReq0)
      (map_option (Marshal_GetRecords libs0) (Body getRecordsReq0)) = Inr ''P''"
    by (simp add: verifyRequest_def libs0_def getRecordsReq0_def)
  have b: "Body getRecordsReq0 = Some getRecordsBody0"
    by (simp add: getRecordsReq0_def)
  have c: "checkServiceKey netTwo (gr_ThreadID getRecordsBody0) (gr_ServiceKey getRecordsBody0)
      = None"
    by (simp add: checkServiceKey_def supplied_def getRecordsBody0_def netTwo_def store0_def)
  have h: "headsChanged netTwo libs0 getRecordsBody0 = Inr True"
    by (simp add: headsChanged_def netTwo_def store0_def libs0_def getRecordsBody0_def)
  have g: "GetThread (store netTwo) (gr_ThreadID getRecordsBody0) = (?info, None)"
    by (simp add: netTwo_def)
  have ne: "Logs ?info \<noteq> []" and small: "2 * length (Logs ?info) < 2 ^ 32"
    by simp_all
  have tid: "gr_ThreadID getRecordsBody0 = ''T''"
    by (simp add: getRecordsBody0_def)
  have f2: "fetched netTwo getRecordsBody0 ?info log2 = ([], Some ErrOffsetIsMissing)"
    by (simp add: fetched_def fetchArgs_def reqd_of_def getRecordsBody0_def log2_def netTwo_def)
  then have failed: "taskFailed netTwo libs0 getRecordsBody0 ?info log2"
    by (simp add: taskFailed_def)
  have run: "GetRecords netTwo libs0 getRecordsReq0 =
       ((Some \<lparr>reply_Logs =
           [\<lparr>re_LogID = ''L1'', re_Records = [prec1], re_Log = None\<rparr>,
            \<lparr>re_LogID = ''L2'', re_Records = [], re_Log = Some (logToProto log2)\<rparr>]\<rparr>, None),
        [Call_getLocalRecords ''T'' ''L1'' (Cid ''h1'') 100,
         Call_getLocalRecords ''T'' ''L2'' Undef 5000,
         Schedule queueGetRecords ''P'' ''T'' callPriorityHigh updateRecordsFromPeer])"
    by (subst GetRecords_slow_path [OF v b c h g ne])
      (simp add: fanOut_def fetchTask_def fetchArgs_def reqd_of_def minInt_def Let_def
        getRecordsBody0_def log1_def log2_def netTwo_def net0_def libs0_def logToProto_def
        signed_divide_int_def)
  from GetRecords_failures_and_upload_done [OF v b c h g ne small] failed tid
  have "Apply ''P'' ''T'' threadStatusUploadDone
      \<notin> set (snd (GetRecords netTwo libs0 getRecordsReq0))"
    by simp
  with v c h g run show ?thesis by simp
qed

lemma sdiv_nonneg:
  "0 \<le> a \<Longrightarrow> 0 < b \<Longrightarrow> a sdiv b = a div (b::int)"
  by (cases "a = 0") (simp_all add: signed_divide_int_def)

lemma fetchArgs_requested:
  assumes "find (\<lambda>e. LogID e = ID lg) (rev logs) = Some opts"
  shows "fetchArgs (reqd_of logs) k lg = (Offset opts, min (sint (Limit opts)) k, None)"
  using assms by (auto simp: fetchArgs_def reqd_of_find minInt_def)

lemma fetchArgs_not_requested:
  assumes "ID lg \<notin> LogID ` set logs"
  shows "fetchArgs (reqd_of logs) k lg = (Undef, k, Some (logToProto lg))"
  using assms reqd_of_None [of logs "ID lg"] by (simp add: fetchArgs_def)

lemma find_requested:
  "find (\<lambda>e. LogID e = i) (rev (logs :: GetRecordsRequest_Body_LogEntry list)) = Some opts
   \<Longrightarrow> i \<in> LogID ` set logs"
  using reqd_of_None [of logs i] by (simp add: reqd_of_find)

text \<open>
  Claim C8. Take a verified request that passed the service-key check, for which the heads
  changed and the thread was read with at least one log, and let \<open>MaxPullLimit\<close> be
  non-negative. The limit per log is \<open>MaxPullLimit\<close> divided by the number of local logs,
  rounded down. For a local log that the request names, the fetch uses the offset of the
  request entry (the last one naming the log) and the smaller of its limit and the limit per
  log; if that fetch yields no record, the reply has no entry for the log. For a local log
  that the request does not name, the fetch uses the undefined offset and the limit per
  log, and the reply has an entry for the log that carries its descriptor.
\<close>

theorem GetRecords_per_log_limits:
  assumes "verifyRequest l (Header req) (map_option (Marshal_GetRecords l) (Body req)) = Inr pid"
    and "Body req = Some body"
    and "checkServiceKey n (gr_ThreadID body) (gr_ServiceKey body) = None"
    and "headsChanged n l body = Inr True"
    and "GetThread (store n) (gr_ThreadID body) = (info, None)"
    and "Logs info \<noteq> []"
    and "0 \<le> MaxPullLimit n"
  shows "\<exists>reply. fst (GetRecords n l req) = (Some reply, None)
    \<and> (\<forall>lg \<in> set (Logs info).
         (\<forall>opts. find (\<lambda>e. LogID e = ID lg) (rev (gr_Logs body)) = Some opts
            \<longrightarrow> Call_getLocalRecords (gr_ThreadID body) (ID lg) (Offset opts)
                  (min (sint (Limit opts)) (MaxPullLimit n div int (length (Logs info))))
                  \<in> set (snd (GetRecords n l req))
                \<and> (fst (getLocalRecords n (gr_ThreadID body) (ID lg) (Offset opts)
                          (min (sint (Limit opts)) (MaxPullLimit n div int (length (Logs info)))))
                     = []
                    \<longrightarrow> (\<forall>e \<in> set (reply_Logs reply). re_LogID e \<noteq> ID lg)))
       \<and> (ID lg \<notin> LogID ` set (gr_Logs body)
            \<longrightarrow> Call_getLocalRecords (gr_ThreadID body) (ID lg) Undef
                  (MaxPullLimit n div int (length (Logs info)))
                  \<in> set (snd (GetRecords n l req))
                \<and> (\<exists>e \<in> set (reply_Logs reply).
                      re_LogID e = ID lg \<and> re_Log e = Some (logToProto lg))))"
proof -
  note run = GetRecords_slow_path [OF assms(1-6)]
  let ?k = "MaxPullLimit n sdiv int (length (Logs info))"
  from assms(6,7) have k: "?k = MaxPullLimit n div int (length (Logs info))"
    by (intro sdiv_nonneg) simp_all
  let ?reply = "\<lparr>reply_Logs = List.map_filter fst (fanOut n l pid body info)\<rparr>"
  have called: "Call_getLocalRecords (gr_ThreadID body) (ID lg) (Offset opts)
                  (min (sint (Limit opts)) ?k) \<in> set (snd (GetRecords n l req))"
    if "lg \<in> set (Logs info)"
      "find (\<lambda>e. LogID e = ID lg) (rev (gr_Logs body)) = Some opts" for lg opts
    using fanOut_fetches_every_log [OF that(1) fetchArgs_requested [OF that(2)], of n l pid]
    by (simp add: run)
  have omitted: "re_LogID e \<noteq> ID lg"
    if "lg \<in> set (Logs info)"
      "find (\<lambda>e. LogID e = ID lg) (rev (gr_Logs body)) = Some opts"
      "fst (getLocalRecords n (gr_ThreadID body) (ID lg) (Offset opts)
              (min (sint (Limit opts)) ?k)) = []"
      "e \<in> set (reply_Logs ?reply)" for lg opts e
  proof
    assume same: "re_LogID e = ID lg"
    from that(4) obtain lg' where lg': "lg' \<in> set (Logs info)"
      and task: "fst (fetchTask n l pid (gr_ThreadID body) (ID lg')
                  (fetchArgs (reqd_of (gr_Logs body)) ?k lg')) = Some e"
      using fanOut_entries [of n l pid body info] by auto
    from task have "re_LogID e = ID lg'"
      unfolding task_entry by (auto split: if_splits)
    with same have id: "ID lg' = ID lg" by simp
    with that(2) have req': "find (\<lambda>e. LogID e = ID lg') (rev (gr_Logs body)) = Some opts"
      by simp
    from fetchArgs_requested [OF req', of ?k] that(3) id
    have "fst (fetched n body info lg') = []"
      by (simp add: fetched_def)
    moreover from find_requested [OF req'] have "ID lg' \<in> LogID ` set (gr_Logs body)" .
    ultimately have "fst (fetchTask n l pid (gr_ThreadID body) (ID lg')
                  (fetchArgs (reqd_of (gr_Logs body)) ?k lg')) = None"
      unfolding task_entry by simp
    with task show False by simp
  qed
  have called_new: "Call_getLocalRecords (gr_ThreadID body) (ID lg) Undef ?k
                  \<in> set (snd (GetRecords n l req))"
    if "lg \<in> set (Logs info)" "ID lg \<notin> LogID ` set (gr_Logs body)" for lg
    using fanOut_fetches_every_log [OF that(1) fetchArgs_not_requested [OF that(2)], of n l pid]
    by (simp add: run)
  have described: "\<exists>e \<in> set (reply_Logs ?reply).
                      re_LogID e = ID lg \<and> re_Log e = Some (logToProto lg)"
    if "lg \<in> set (Logs info)" "ID lg \<notin> LogID ` set (gr_Logs body)" for lg
  proof -
    from that(2) have "fst (fetchTask n l pid (gr_ThreadID body) (ID lg)
                  (fetchArgs (reqd_of (gr_Logs body)) ?k lg))
        = Some \<lparr>re_LogID = ID lg,
                 re_Records = fst (convertRecords l (fst (fetched n body info lg))),
                 re_Log = Some (logToProto lg)\<rparr>"
      unfolding task_entry by simp
    with that(1) have "\<lparr>re_LogID = ID lg,
                 re_Records = fst (convertRecords l (fst (fetched n body info lg))),
                 re_Log = Some (logToProto lg)\<rparr> \<in> set (reply_Logs ?reply)"
      using fanOut_entries [of n l pid body info] by auto
    then show ?thesis by force
  qed
  have "fst (GetRecords n l req) = (Some ?reply, None)"
    by (simp add: run)
  with called omitted called_new described show ?thesis
    unfolding k by blast
qed

theorem GetRecords_per_log_limits_witness:
  "verifyRequest libs0 (Header getRecordsReq0)
      (map_option (Marshal_GetRecords libs0) (Body getRecordsReq0)) = Inr ''P''
   \<and> checkServiceKey (netTwo\<lparr>getLocalRecords := \<lambda>t i c k. ([], None)\<rparr>)
        (gr_ThreadID getRecordsBody0) (gr_ServiceKey getRecordsBody0) = None
   \<and> headsChanged (netTwo\<lparr>getLocalRecords := \<lambda>t i c k. ([], None)\<rparr>) libs0 getRecordsBody0
       = Inr True
   \<and> GetThread (store (netTwo\<lparr>getLocalRecords := \<lambda>t i c k. ([], None)\<rparr>))
        (gr_ThreadID getRecordsBody0)
       = (\<lparr>Key = \<lparr>service = Some [1], read = None\<rparr>, Logs = [log1, log2]\<rparr>, None)
   \<and> MaxPullLimit (netTwo\<lparr>getLocalRecords := \<lambda>t i c k. ([], None)\<rparr>) = 10000
   \<and> find (\<lambda>e. LogID e = ID log1) (rev (gr_Logs getRecordsBody0))
       = Some \<lparr>LogID = ''L1'', Offset = Cid ''h1'', Limit = 100\<rparr>
   \<and> ID log2 \<notin> LogID ` set (gr_Logs getRecordsBody0)
   \<and> GetRecords (netTwo\<lparr>getLocalRecords := \<lambda>t i c k. ([], None)\<rparr>) libs0 getRecordsReq0 =
       ((Some \<lparr>reply_Logs =
           [\<lparr>re_LogID = ''L2'', re_Records = [], re_Log = Some (logToProto log2)\<rparr>]\<rparr>, None),
        [Call_getLocalRecords ''T'' ''L1'' (Cid ''h1'') 100,
         Call_getLocalRecords ''T'' ''L2'' Undef 5000,
         Apply ''P'' ''T'' threadStatusUploadDone])"
proof -
  let ?n = "netTwo\<lparr>getLocalRecords := \<lambda>t i c k. ([], None)\<rparr>"
  let ?info = "\<lparr>Key = \<lparr>service = Some [1], read = None\<rparr>, Logs = [log1, log2]\<rparr>"
  have v: "verifyRequest libs0 (Header getRecordsReq0)
      (map_option (Marshal_GetRecords libs0) (Body getRecordsReq0)) = Inr ''P''"
    by (simp add: verifyRequest_def libs0_def getRecordsReq0_def)
  have b: "Body getRecordsReq0 = Some getRecordsBody0"
    by (simp add: getRecordsReq0_def)
  have c: "checkServiceKey ?n (gr_ThreadID getRecordsBody0) (gr_ServiceKey getRecordsBody0) = None"
    by (simp add: checkServiceKey_def supplied_def getRecordsBody0_def netTwo_def store0_def)
  have h: "headsChanged ?n libs0 getRecordsBody0 = Inr True"
    by (simp add: headsChanged_def netTwo_def store0_def libs0_def getRecordsBody0_def)
  have g: "GetThread (store ?n) (gr_ThreadID getRecordsBody0) = (?info, None)"
    by (simp add: netTwo_def)
  have ne: "Logs ?info \<noteq> []"
    by simp
  have m: "MaxPullLimit ?n = 10000" and m0: "0 \<le> MaxPullLimit ?n"
    by (simp_all add: netTwo_def net0_def)
  have r1: "find (\<lambda>e. LogID e = ID log1) (rev (gr_Logs getRecordsBody0))
       = Some \<lparr>LogID = ''L1'', Offset = Cid ''h1'', Limit = 100\<rparr>"
    by (simp add: getRecordsBody0_def log1_def)
  have r2: "ID log2 \<notin> LogID ` set (gr_Logs getRecordsBody0)"
    by (simp add: getRecordsBody0_def log2_def)
  have run: "GetRecords ?n libs0 getRecordsReq0 =
       ((Some \<lparr>reply_Logs =
           [\<lparr>re_LogID = ''L2'', re_Records = [], re_Log = Some (logToProto log2)\<rparr>]\<rparr>, None),
        [Call_getLocalRecords ''T'' ''L1'' (Cid ''h1'') 100,
         Call_getLocalRecords ''T'' ''L2'' Undef 5000,
         Apply ''P'' ''T'' threadStatusUploadDone])"
    by (subst GetRecords_slow_path [OF v b c h g ne])
      (simp add: fanOut_def fetchTask_def fetchArgs_def reqd_of_def minInt_def Let_def
        getRecordsBody0_def log1_def log2_def netTwo_def net0_def libs0_def logToProto_def
        signed_divide_int_def)
  from GetRecords_per_log_limits [OF v b c h g ne m0]
  have "\<exists>reply. fst (GetRecords ?n libs0 getRecordsReq0) = (Some reply, None)"
    by blast
  with v c h g m r1 r2 run show ?thesis
    by (intro conjI) assumption+
qed

end
